theory Spec2Isabelle
  imports Complex_Main "HOL-Library.Log_Nat" "HOL-Library.Multiset"
begin

section \<open>JavaScript values used by the leaderboard script\<close>

text \<open>
  The script works on strings delivered by the CSV parser and on JavaScript numbers.
  Strings are modelled as \<^typ>\<open>string\<close>; a property that is absent from an object
  (\<open>undefined\<close>) is \<open>None\<close>.

  A JavaScript number is an IEEE binary64 value. Every finite binary64 value is a rational
  number, so a finite number is modelled by its exact value. The two zeros are identified:
  the script never distinguishes them (\<open>-0 >= 0\<close> holds, \<open>-0 || 0\<close> is \<open>0\<close>, and a sort
  only looks at the sign of what its comparator returns).
\<close>

datatype jsnum = NaN | PosInf | NegInf | Fin rat

definition isNaN :: "jsnum \<Rightarrow> bool" where
  "isNaN x = (x = NaN)"

text \<open>\<open>x >= 0\<close>: false for \<open>NaN\<close>.\<close>

fun ge0 :: "jsnum \<Rightarrow> bool" where
  "ge0 NaN = False"
| "ge0 PosInf = True"
| "ge0 NegInf = False"
| "ge0 (Fin q) = (0 \<le> q)"

text \<open>\<open>x > 0\<close>: false for \<open>NaN\<close>.\<close>

fun gt0 :: "jsnum \<Rightarrow> bool" where
  "gt0 NaN = False"
| "gt0 PosInf = True"
| "gt0 NegInf = False"
| "gt0 (Fin q) = (0 < q)"

text \<open>
  \<open>x || 0\<close> on a number: \<open>NaN\<close> and zero are falsy, every other number is kept.
\<close>

fun or0 :: "jsnum \<Rightarrow> jsnum" where
  "or0 NaN = Fin 0"
| "or0 x = x"

text \<open>
  \<open>a - b\<close>. The difference of two finite numbers is given by its exact value: the script
  uses differences only as comparator results, of which a sort reads the sign, and rounding
  to binary64 (with gradual underflow) never changes the sign of a difference.
\<close>

fun jsminus :: "jsnum \<Rightarrow> jsnum \<Rightarrow> jsnum" where
  "jsminus NaN _ = NaN"
| "jsminus _ NaN = NaN"
| "jsminus PosInf PosInf = NaN"
| "jsminus NegInf NegInf = NaN"
| "jsminus PosInf _ = PosInf"
| "jsminus NegInf _ = NegInf"
| "jsminus (Fin a) PosInf = NegInf"
| "jsminus (Fin a) NegInf = PosInf"
| "jsminus (Fin a) (Fin b) = Fin (a - b)"

text \<open>\<open>a < b\<close>: false when either side is \<open>NaN\<close>.\<close>

fun jsless :: "jsnum \<Rightarrow> jsnum \<Rightarrow> bool" where
  "jsless NaN y = False"
| "jsless x NaN = False"
| "jsless x PosInf = (x \<noteq> PosInf)"
| "jsless PosInf y = False"
| "jsless NegInf y = (y \<noteq> NegInf)"
| "jsless (Fin a) NegInf = False"
| "jsless (Fin a) (Fin b) = (a < b)"

subsection \<open>Rounding to binary64\<close>

definition pow2 :: "int \<Rightarrow> rat" where
  "pow2 e = (if 0 \<le> e then 2 ^ nat e else 1 / 2 ^ nat (- e))"

text \<open>The binary exponent \<open>\<lfloor>log\<^sub>2 q\<rfloor>\<close> of a positive rational.\<close>

definition ilog2 :: "rat \<Rightarrow> int" where
  "ilog2 q = (let (a, b) = quotient_of q; d = bitlen a - bitlen b
              in if pow2 d \<le> q then d else d - 1)"

text \<open>Round a non-negative rational to the nearest integer, ties to even.\<close>

definition rne :: "rat \<Rightarrow> int" where
  "rne m = (let f = \<lfloor>m\<rfloor>; r = m - of_int f
            in if r < 1 / 2 then f
               else if 1 / 2 < r then f + 1
               else if even f then f else f + 1)"

text \<open>
  Round-to-nearest, ties-to-even, onto binary64: 53 significant bits, least normal
  exponent \<open>-1022\<close>. The rounded magnitude is \<open>n * 2\<^sup>e\<^sup>-\<^sup>5\<^sup>2\<close> with \<open>n \<le> 2\<^sup>5\<^sup>3\<close>; it
  overflows to an infinity when it reaches \<open>2\<^sup>1\<^sup>0\<^sup>2\<^sup>4\<close>, that is when \<open>e \<ge> 1024\<close>, or
  \<open>e = 1023\<close> and \<open>n = 2\<^sup>5\<^sup>3\<close>.
\<close>

definition round64 :: "rat \<Rightarrow> jsnum" where
  "round64 q =
     (if q = 0 then Fin 0
      else let e = max (ilog2 \<bar>q\<bar>) (- 1022);
               ulp = pow2 (e - 52);
               n = rne (\<bar>q\<bar> / ulp);
               v = of_int n * ulp
           in if 1024 \<le> e \<or> (e = 1023 \<and> n = 2 ^ 53)
              then (if q < 0 then NegInf else PosInf)
              else Fin (if q < 0 then - v else v))"

subsection \<open>Characters and strings\<close>

text \<open>
  Text is modelled with the 8-bit characters of \<^typ>\<open>string\<close> (code units \<open>0\<close> to \<open>255\<close>).
  White space, as \<open>trim\<close> and \<open>parseFloat\<close> see it, is TAB, LF, VT, FF, CR, SPACE and the
  no-break space \<open>U+00A0\<close>.
\<close>

definition nbsp :: char where
  "nbsp = CHR 0xA0"

definition isWhiteSpace :: "char \<Rightarrow> bool" where
  "isWhiteSpace c = (let n = (of_char c :: nat) in (9 \<le> n \<and> n \<le> 13) \<or> n = 32 \<or> n = 160)"

definition trimStart :: "string \<Rightarrow> string" where
  "trimStart s = dropWhile isWhiteSpace s"

definition trim :: "string \<Rightarrow> string" where
  "trim s = rev (dropWhile isWhiteSpace (rev (dropWhile isWhiteSpace s)))"

definition isDigit :: "char \<Rightarrow> bool" where
  "isDigit c = (let n = (of_char c :: nat) in 48 \<le> n \<and> n \<le> 57)"

definition digitsVal :: "string \<Rightarrow> nat" where
  "digitsVal ds = foldl (\<lambda>a c. 10 * a + (of_char c - 48)) 0 ds"

text \<open>
  Case mapping on these code units: the letters \<open>A-Z\<close> and \<open>U+00C0-U+00DE\<close> (without the
  multiplication sign) are upper case, \<open>a-z\<close> and \<open>U+00E0-U+00FE\<close> (without the division sign)
  are their lower case.
\<close>

definition isUpper :: "nat \<Rightarrow> bool" where
  "isUpper n = ((65 \<le> n \<and> n \<le> 90) \<or> (192 \<le> n \<and> n \<le> 222 \<and> n \<noteq> 215))"

definition isLower :: "nat \<Rightarrow> bool" where
  "isLower n = ((97 \<le> n \<and> n \<le> 122) \<or> (224 \<le> n \<and> n \<le> 254 \<and> n \<noteq> 247))"

definition toLowerChar :: "char \<Rightarrow> char" where
  "toLowerChar c = (let n = (of_char c :: nat) in if isUpper n then char_of (n + 32) else c)"

definition toLowerCase :: "string \<Rightarrow> string" where
  "toLowerCase s = map toLowerChar s"

text \<open>
  \<open>toUpperCase\<close> of one code unit. The sharp s becomes \<open>SS\<close>. The capitals of the micro sign
  \<open>U+00B5\<close> and of y with diaeresis \<open>U+00FF\<close> are \<open>U+039C\<close> and \<open>U+0178\<close>, which are no code
  units of this text: \<open>capitalBeyondText\<close> tells these two, and for them the value of
  \<open>toUpperCase1\<close> is not used.
\<close>

definition capitalBeyondText :: "char \<Rightarrow> bool" where
  "capitalBeyondText c = ((of_char c :: nat) = 181 \<or> (of_char c :: nat) = 255)"

definition toUpperCase1 :: "char \<Rightarrow> string" where
  "toUpperCase1 c = (let n = (of_char c :: nat)
                     in if isLower n then [char_of (n - 32)]
                        else if n = 223 then ''SS'' else [c])"

text \<open>
  \<open>Canonicalize\<close> of a case-insensitive regular expression: the capital of a code unit when
  that is a single code unit, the code unit itself otherwise.
\<close>

definition canonicalize :: "char \<Rightarrow> char" where
  "canonicalize c = (let n = (of_char c :: nat) in if isLower n then char_of (n - 32) else c)"

text \<open>\<open>s.includes(t)\<close>: \<open>t\<close> occurs in \<open>s\<close> as a contiguous substring.\<close>

fun includesStr :: "string \<Rightarrow> string \<Rightarrow> bool" where
  "includesStr [] t = (t = [])"
| "includesStr (c # s) t = (take (length t) (c # s) = t \<or> includesStr s t)"

subsection \<open>parseFloat\<close>

text \<open>
  \<open>parseFloat(v)\<close>: convert to a string (\<open>undefined\<close> gives \<open>"undefined"\<close>), skip leading
  white space, take the longest prefix that is a decimal literal
  (\<open>[+-]? (Infinity | digits [. digits?] [exponent] | . digits [exponent])\<close>), and round
  its value to binary64; \<open>NaN\<close> when there is no such prefix.
\<close>

text \<open>The exponent part \<open>[eE] [+-]? digits\<close> at the head of a string, \<open>0\<close> when absent.\<close>

definition exponentPart :: "string \<Rightarrow> int" where
  "exponentPart r =
     (case r of
        [] \<Rightarrow> 0
      | c # r1 \<Rightarrow>
          if c = CHR ''e'' \<or> c = CHR ''E'' then
            (let (neg, r2) = (case r1 of
                                [] \<Rightarrow> (False, r1)
                              | d # r3 \<Rightarrow> if d = CHR ''-'' then (True, r3)
                                          else if d = CHR ''+'' then (False, r3)
                                          else (False, r1));
                 ds = takeWhile isDigit r2
             in if ds = [] then 0
                else if neg then - int (digitsVal ds) else int (digitsVal ds))
          else 0)"

definition pow10 :: "int \<Rightarrow> rat" where
  "pow10 e = (if 0 \<le> e then 10 ^ nat e else 1 / 10 ^ nat (- e))"

definition parseFloat :: "string option \<Rightarrow> jsnum" where
  "parseFloat v =
     (let t = trimStart (case v of None \<Rightarrow> ''undefined'' | Some s \<Rightarrow> s);
          (neg, u) = (case t of
                        [] \<Rightarrow> (False, t)
                      | c # r \<Rightarrow> if c = CHR ''-'' then (True, r)
                                  else if c = CHR ''+'' then (False, r)
                                  else (False, t))
      in if take 8 u = ''Infinity'' then (if neg then NegInf else PosInf)
         else
           let ip = takeWhile isDigit u;
               r1 = dropWhile isDigit u;
               (fp, r2) = (case r1 of
                             [] \<Rightarrow> ([], r1)
                           | c # r \<Rightarrow> if c = CHR ''.''
                                       then (takeWhile isDigit r, dropWhile isDigit r)
                                       else ([], r1))
           in if ip = [] \<and> fp = [] then NaN
              else
                let m = of_nat (digitsVal (ip @ fp)) * pow10 (exponentPart r2 - int (length fp))
                in round64 (if neg then - m else m))"

subsection \<open>Numbers to strings\<close>

definition digitChar :: "nat \<Rightarrow> char" where
  "digitChar d = char_of (48 + d)"

fun natToString :: "nat \<Rightarrow> string" where
  "natToString n = (if n < 10 then [digitChar n] else natToString (n div 10) @ [digitChar (n mod 10)])"

declare natToString.simps [simp del]

text \<open>
  \<open>Number::toString\<close> for a finite \<open>x \<ge> 10\<^sup>2\<^sup>1\<close> (the only case \<open>toFixed\<close> hands over): the
  fewest digits \<open>s\<close> (\<open>k\<close> of them) and the exponent \<open>n\<close> such that \<open>s * 10\<^sup>n\<^sup>-\<^sup>k\<close> rounds to
  \<open>x\<close>; among several such \<open>s\<close> the one closest to \<open>x\<close>, an even one on a tie. Such an \<open>x\<close> is
  an integer; with \<open>nd\<close> its number of digits, \<open>n\<close> is \<open>nd\<close> or \<open>nd + 1\<close>. Seventeen digits
  always suffice.
\<close>

definition candidates :: "rat \<Rightarrow> nat \<Rightarrow> nat \<Rightarrow> (nat \<times> nat) list" where
  "candidates x nd k =
     concat (map (\<lambda>n. let f = nat \<lfloor>x / 10 ^ (n - k)\<rfloor>
                        in filter (\<lambda>(s, n). 10 ^ (k - 1) \<le> s \<and> s < 10 ^ k
                                            \<and> round64 (of_nat s * 10 ^ (n - k)) = Fin x)
                                  [(f, n), (f + 1, n)])
                 [nd, nd + 1])"

definition dist :: "rat \<Rightarrow> nat \<Rightarrow> nat \<times> nat \<Rightarrow> rat" where
  "dist x k c = \<bar>of_nat (fst c) * 10 ^ (snd c - k) - x\<bar>"

fun closest :: "rat \<Rightarrow> nat \<Rightarrow> (nat \<times> nat) list \<Rightarrow> nat \<times> nat \<Rightarrow> nat \<times> nat" where
  "closest x k [] best = best"
| "closest x k (c # cs) best =
     closest x k cs
       (if dist x k c < dist x k best \<or> (dist x k c = dist x k best \<and> even (fst c) \<and> odd (fst best))
        then c else best)"

fun shortest :: "rat \<Rightarrow> nat \<Rightarrow> nat \<Rightarrow> nat \<Rightarrow> nat \<times> nat \<times> nat" where
  "shortest x nd k 0 = (nat \<lfloor>x\<rfloor>, nd, nd)"
| "shortest x nd k (Suc fuel) =
     (case candidates x nd k of
        [] \<Rightarrow> shortest x nd (Suc k) fuel
      | c # cs \<Rightarrow> (case closest x k cs c of (s, n) \<Rightarrow> (s, n, k)))"

definition numberToString :: "rat \<Rightarrow> string" where
  "numberToString x =
     (case shortest x (length (natToString (nat \<lfloor>x\<rfloor>))) 1 17 of
        (s, n, k) \<Rightarrow>
          let ds = natToString s
          in (if k = 1 then ds else take 1 ds @ ''.'' @ drop 1 ds) @ ''e+'' @ natToString (n - 1))"

text \<open>
  \<open>x.toFixed(f)\<close>: the non-finite numbers print by name; a magnitude from \<open>10\<^sup>2\<^sup>1\<close> on is
  handed to \<open>Number::toString\<close>; otherwise the integer \<open>n\<close> nearest to \<open>x * 10\<^sup>f\<close> (the larger
  one on a tie) is printed with \<open>f\<close> digits after the point.
\<close>

definition toFixed :: "nat \<Rightarrow> jsnum \<Rightarrow> string" where
  "toFixed f x =
     (case x of
        NaN \<Rightarrow> ''NaN''
      | PosInf \<Rightarrow> ''Infinity''
      | NegInf \<Rightarrow> ''-Infinity''
      | Fin q \<Rightarrow>
          (if q < 0 then ''-'' else []) @
          (if 10 ^ 21 \<le> \<bar>q\<bar> then numberToString \<bar>q\<bar>
           else let m = natToString (nat \<lfloor>\<bar>q\<bar> * 10 ^ f + 1 / 2\<rfloor>)
                in if f = 0 then m
                   else let m0 = replicate (f + 1 - length m) (CHR ''0'') @ m;
                            k = length m0
                        in take (k - f) m0 @ ''.'' @ drop (k - f) m0))"

section \<open>Rows, the page and the host\<close>

text \<open>
  A row is what the CSV parser delivers for one record: the column names with their
  (string) values. \<open>entry[k]\<close> is \<open>field entry k\<close>, \<open>None\<close> when the row has no such column.
  (A name that the row inherits from \<open>Object.prototype\<close> gives a function or an object
  there; \<open>parseFloat\<close> reads those as \<open>NaN\<close>, as it reads \<open>undefined\<close>.)
\<close>

type_synonym row = "(string \<times> string) list"

definition field :: "row \<Rightarrow> string \<Rightarrow> string option" where
  "field entry k = map_of entry k"

text \<open>A value interpolated into a template literal.\<close>

definition toStr :: "string option \<Rightarrow> string" where
  "toStr v = (case v of None \<Rightarrow> ''undefined'' | Some s \<Rightarrow> s)"

text \<open>
  A table row element built by a render: its rank class (\<open>rank-1\<close> to \<open>rank-3\<close>) if any, the
  number in its first cell (\<open>None\<close> prints as \<open>undefined\<close>), and the markup of the other cells.
\<close>

record tr =
  className :: "string option"
  rankCell :: "nat option"
  cells :: "string list"

text \<open>
  The table body holds either markup assigned to \<open>innerHTML\<close> or the row elements appended
  after it was cleared.
\<close>

datatype tbody_content = InnerHTML string | RowElems "tr list"

text \<open>
  The state of the page: the script's global variables, the elements it reads and writes
  (\<open>None\<close> for an element the page does not have), and the resources requested so far.
\<close>

record page =
  leaderboardData :: "row list"
  currentDomain :: string
  isOracleMode :: bool
  currentSearchTerm :: string
  tbody :: "tbody_content option"
  filterStatus :: "(string \<times> string) option"
  title :: "string option"
  toggleChecked :: bool
  topPerformersStyles :: bool
  requests :: "string list"

text \<open>What \<open>await fetch(url)\<close> gives: a rejection with its message, or a response with its
  \<open>ok\<close> flag, its status and what \<open>await response.text()\<close> gives (\<open>Inl\<close> a rejection).\<close>

datatype fetched = Rejected string | Response bool nat "string + string"

text \<open>
  The host: the collaborators the script calls and the model does not interpret.
  \<^item> \<open>fetch\<close>: the answer to a request.
  \<^item> \<open>papaParse\<close>: the rows parsed from a CSV text (\<open>Inl\<close> the message of an exception).
  \<^item> \<open>regExp\<close>: for a pattern with regular-expression syntax beyond literal characters and
    the dot, either the message of the \<open>SyntaxError\<close> that \<open>new RegExp(pattern, 'gi')\<close>
    throws, or the function \<open>text \<mapsto> text.replace(regex, '<mark>$1</mark>')\<close>.
  \<^item> \<open>dateParse\<close>: the time value of \<open>new Date(string)\<close>, \<open>None\<close> for an invalid date.
  \<^item> \<open>dateFormat\<close>: \<open>toLocaleDateString('en-US', {year, month: 'short', day})\<close> of a
    valid time value.
\<close>

record host =
  fetch :: "string \<Rightarrow> fetched"
  papaParse :: "string \<Rightarrow> string + row list"
  regExp :: "string \<Rightarrow> string + (string \<Rightarrow> string)"
  dateParse :: "string \<Rightarrow> int option"
  dateFormat :: "int \<Rightarrow> string"

text \<open>A call either returns or throws an error with a message, in both cases with a state.\<close>

datatype outcome = Returns page | Throws string page

subsection \<open>escapeHtml and formatDate (both files)\<close>

text \<open>
  \<open>escapeHtml\<close> assigns the text to \<open>textContent\<close> of a fresh element and reads \<open>innerHTML\<close>
  back. Serialising a text node replaces \<open>&\<close>, the no-break space, \<open><\<close> and \<open>>\<close>;
  assigning \<open>undefined\<close> gives the empty text.
\<close>

definition escapeChar :: "char \<Rightarrow> string" where
  "escapeChar c = (if c = CHR ''&'' then ''&amp;''
                   else if c = nbsp then ''&nbsp;''
                   else if c = CHR ''<'' then ''&lt;''
                   else if c = CHR ''>'' then ''&gt;''
                   else [c])"

definition escapeHtml :: "string option \<Rightarrow> string" where
  "escapeHtml text = (case text of None \<Rightarrow> [] | Some s \<Rightarrow> concat (map escapeChar s))"

text \<open>
  \<open>formatDate\<close>: \<open>new Date(dateString)\<close> and \<open>toLocaleDateString\<close> inside \<open>try\<close>, the raw
  argument from \<open>catch\<close>. Neither call throws: an unparsable string (or \<open>undefined\<close>) gives
  an invalid date, which \<open>toLocaleDateString\<close> prints as \<open>Invalid Date\<close>.
\<close>

definition newDate :: "host \<Rightarrow> string option \<Rightarrow> string + int option" where
  "newDate h dateString = Inr (case dateString of None \<Rightarrow> None | Some d \<Rightarrow> dateParse h d)"

definition toLocaleDateString :: "host \<Rightarrow> int option \<Rightarrow> string + string" where
  "toLocaleDateString h date =
     Inr (case date of None \<Rightarrow> ''Invalid Date'' | Some t \<Rightarrow> dateFormat h t)"

definition formatDate :: "host \<Rightarrow> string option \<Rightarrow> string option" where
  "formatDate h dateString =
     (case newDate h dateString of
        Inl error \<Rightarrow> dateString
      | Inr date \<Rightarrow>
          (case toLocaleDateString h date of
             Inl error \<Rightarrow> dateString
           | Inr formatted \<Rightarrow> Some formatted))"

subsection \<open>Sorting\<close>

text \<open>
  \<open>Array.prototype.sort\<close> with a comparator: the element \<open>x\<close> goes after \<open>y\<close> when
  \<open>cmp x y > 0\<close> (a \<open>NaN\<close> result counts as zero). The sort is stable; for the comparators
  of this script, which compare a key of each element, the result is the one that stable
  insertion computes.
\<close>

fun insertBy :: "('a \<Rightarrow> 'a \<Rightarrow> jsnum) \<Rightarrow> 'a \<Rightarrow> 'a list \<Rightarrow> 'a list" where
  "insertBy cmp x [] = [x]"
| "insertBy cmp x (y # ys) = (if gt0 (cmp x y) then y # insertBy cmp x ys else x # y # ys)"

definition sortBy :: "('a \<Rightarrow> 'a \<Rightarrow> jsnum) \<Rightarrow> 'a list \<Rightarrow> 'a list" where
  "sortBy cmp xs = foldr (insertBy cmp) xs []"

subsection \<open>Highlighting\<close>

text \<open>
  The pattern of the highlight is the escaped search term in a group. A pattern made of
  literal characters and dots is interpreted here; any other goes to the host.
\<close>

datatype atom = Lit char | AnyChar

definition syntaxChars :: string where
  "syntaxChars = ''^$*+?()[]{}|'' @ [CHR 0x5C]"

definition plainPattern :: "string \<Rightarrow> bool" where
  "plainPattern p = list_all (\<lambda>c. c \<notin> set syntaxChars) p"

definition atoms :: "string \<Rightarrow> atom list" where
  "atoms p = map (\<lambda>c. if c = CHR ''.'' then AnyChar else Lit c) p"

fun atomMatches :: "atom \<Rightarrow> char \<Rightarrow> bool" where
  "atomMatches (Lit d) c = (canonicalize d = canonicalize c)"
| "atomMatches AnyChar c = ((of_char c :: nat) \<noteq> 10 \<and> (of_char c :: nat) \<noteq> 13)"

fun matchAtoms :: "atom list \<Rightarrow> string \<Rightarrow> bool" where
  "matchAtoms [] s = True"
| "matchAtoms (a # as) [] = False"
| "matchAtoms (a # as) (c # s) = (atomMatches a c \<and> matchAtoms as s)"

text \<open>
  \<open>text.replace(regex, '<mark>$1</mark>')\<close> with the \<open>g\<close> flag: from left to right, each match
  is wrapped and the scan goes on behind it (one character further after an empty match).
\<close>

function markAll :: "atom list \<Rightarrow> string \<Rightarrow> string" where
  "markAll as [] = (if as = [] then ''<mark></mark>'' else [])"
| "markAll as (c # s) =
     (if as = [] then ''<mark></mark>'' @ c # markAll as s
      else if matchAtoms as (c # s)
      then ''<mark>'' @ take (length as) (c # s) @ ''</mark>'' @ markAll as (drop (length as) (c # s))
      else c # markAll as s)"
  by pat_completeness auto
termination
  by (relation "measure (\<lambda>(as, s). length s)") (auto simp: neq_Nil_conv)

definition highlighter :: "host \<Rightarrow> string \<Rightarrow> string + (string \<Rightarrow> string)" where
  "highlighter h searchTerm =
     (let p = escapeHtml (Some (trim searchTerm))
      in if plainPattern p then Inr (markAll (atoms p))
         else regExp h (''('' @ p @ '')''))"

section \<open>The leaderboard with search and oracle mode\<close>

text \<open>
  Assigning to \<open>tbody.innerHTML\<close> throws a \<open>TypeError\<close> when the page has no table body.
  The wording of its message is the engine's; it is never displayed.
\<close>

definition nullTypeError :: string where
  "nullTypeError = ''TypeError: tbody is null''"

definition setInnerHTML :: "string \<Rightarrow> page \<Rightarrow> outcome" where
  "setInnerHTML html s =
     (case tbody s of
        None \<Rightarrow> Throws nullTypeError s
      | Some old \<Rightarrow> Returns (s\<lparr>tbody := Some (InnerHTML html)\<rparr>))"

text \<open>The one-cell row that carries a message, spanning \<open>colspan\<close> columns.\<close>

definition messageRow :: "string \<Rightarrow> string \<Rightarrow> string" where
  \<open>messageRow colspan msg =
     ''<tr><td colspan="'' @ colspan @ ''" style="text-align: center; color: #dc3545;">'' @ msg
       @ ''</td></tr>''\<close>

text \<open>
  \<open>domain.charAt(0).toUpperCase() + domain.slice(1)\<close>, the name of the column that a render
  reads. For a domain whose first code unit has its capital beyond the text, that name is
  no text of the model and no row of the model has a column of that name: \<open>entry[adjustedDomain]\<close>
  is \<open>undefined\<close> for every entry, so that no entry is valid. \<open>columnBeyondText\<close> tells these
  domains.
\<close>

definition adjustedDomain :: "string \<Rightarrow> string" where
  "adjustedDomain domain = (case domain of [] \<Rightarrow> [] | c # rest \<Rightarrow> toUpperCase1 c @ rest)"

definition columnBeyondText :: "string \<Rightarrow> bool" where
  "columnBeyondText domain = (case domain of [] \<Rightarrow> False | c # rest \<Rightarrow> capitalBeyondText c)"

definition score :: "string \<Rightarrow> row \<Rightarrow> jsnum" where
  "score col entry = parseFloat (field entry col)"

text \<open>The filter \<open>!isNaN(score) && score >= 0\<close>.\<close>

definition hasScore :: "string \<Rightarrow> row \<Rightarrow> bool" where
  "hasScore col entry = (\<not> isNaN (score col entry) \<and> ge0 (score col entry))"

text \<open>The test \<open>searchTerm && searchTerm.trim() !== ''\<close>.\<close>

definition searching :: "string \<Rightarrow> bool" where
  "searching searchTerm = (searchTerm \<noteq> [] \<and> trim searchTerm \<noteq> [])"

definition orEmpty :: "string option \<Rightarrow> string" where
  "orEmpty v = (case v of None \<Rightarrow> [] | Some s \<Rightarrow> s)"

definition matchesSearch :: "string \<Rightarrow> row \<Rightarrow> bool" where
  "matchesSearch searchTerm entry =
     (let normalizedSearchTerm = toLowerCase (trim searchTerm);
          system = toLowerCase (orEmpty (field entry ''System''));
          model = toLowerCase (orEmpty (field entry ''Models''))
      in includesStr system normalizedSearchTerm \<or> includesStr model normalizedSearchTerm)"

definition validData :: "row list \<Rightarrow> string \<Rightarrow> string \<Rightarrow> row list" where
  "validData data col searchTerm =
     (let valid = filter (hasScore col) data
      in if searching searchTerm then filter (matchesSearch searchTerm) valid else valid)"

text \<open>The comparator \<open>scoreB - scoreA\<close> with \<open>score = parseFloat(entry[domain]) || 0\<close>.\<close>

definition byScore :: "string \<Rightarrow> row \<Rightarrow> row \<Rightarrow> jsnum" where
  "byScore col a b = jsminus (or0 (score col b)) (or0 (score col a))"

definition allValidData :: "row list \<Rightarrow> string \<Rightarrow> row list" where
  "allValidData data col = sortBy (byScore col) (filter (hasScore col) data)"

definition uniqueId :: "string \<Rightarrow> row \<Rightarrow> string" where
  "uniqueId col entry =
     toStr (field entry ''System'') @ ''-'' @ toStr (field entry ''Models'') @ ''-''
       @ toFixed 3 (or0 (score col entry))"

text \<open>\<open>originalRankMap\<close>: each entry of \<open>allValidData\<close> sets its identifier to \<open>index + 1\<close>.\<close>

definition setRanks :: "string \<Rightarrow> row list \<Rightarrow> (string \<rightharpoonup> nat)" where
  "setRanks col ordered =
     fold (\<lambda>(entry, index) m. m(uniqueId col entry \<mapsto> index + 1))
          (zip ordered [0..<length ordered]) Map.empty"

definition originalRankMap :: "row list \<Rightarrow> string \<Rightarrow> (string \<rightharpoonup> nat)" where
  "originalRankMap data col = setRanks col (allValidData data col)"

text \<open>\<open>originalRankMap.get(id) || 999\<close>.\<close>

definition rankOr999 :: "(string \<rightharpoonup> nat) \<Rightarrow> string \<Rightarrow> nat" where
  "rankOr999 m k = (case m k of None \<Rightarrow> 999 | Some r \<Rightarrow> if r = 0 then 999 else r)"

definition byRankOrScore :: "row list \<Rightarrow> string \<Rightarrow> string \<Rightarrow> row \<Rightarrow> row \<Rightarrow> jsnum" where
  "byRankOrScore data col searchTerm a b =
     (if searching searchTerm
      then jsminus (Fin (of_nat (rankOr999 (originalRankMap data col) (uniqueId col a))))
                   (Fin (of_nat (rankOr999 (originalRankMap data col) (uniqueId col b))))
      else byScore col a b)"

definition sortedData :: "row list \<Rightarrow> string \<Rightarrow> string \<Rightarrow> row list" where
  "sortedData data col searchTerm =
     sortBy (byRankOrScore data col searchTerm) (validData data col searchTerm)"

text \<open>The row element built for one entry; \<open>Inl\<close> when building the highlight throws.\<close>

definition renderRow :: "host \<Rightarrow> row list \<Rightarrow> string \<Rightarrow> string \<Rightarrow> row \<Rightarrow> string + tr" where
  "renderRow h data col searchTerm entry =
     (let originalRank = originalRankMap data col (uniqueId col entry);
          cls = (case originalRank of
                   None \<Rightarrow> None
                 | Some r \<Rightarrow> if r \<le> 3 then Some (''rank-'' @ natToString r) else None);
          systemText = escapeHtml (field entry ''System'');
          modelText = escapeHtml (field entry ''Models'');
          scoreText = toFixed 1 (or0 (score col entry)) @ ''%''
      in if searching searchTerm
         then (case highlighter h searchTerm of
                 Inl msg \<Rightarrow> Inl msg
               | Inr mark \<Rightarrow>
                   Inr \<lparr>className = cls, rankCell = originalRank,
                        cells = [mark systemText, mark modelText, scoreText]\<rparr>)
         else Inr \<lparr>className = cls, rankCell = originalRank,
                   cells = [systemText, modelText, scoreText]\<rparr>)"

text \<open>
  \<open>forEach\<close> over the entries, appending one row element each; an exception ends the loop
  with the rows appended so far.
\<close>

fun appendRows :: "(row \<Rightarrow> string + tr) \<Rightarrow> row list \<Rightarrow> tr list \<Rightarrow> (string \<times> tr list) + tr list" where
  "appendRows f [] acc = Inr acc"
| "appendRows f (entry # rest) acc =
     (case f entry of
        Inl msg \<Rightarrow> Inl (msg, acc)
      | Inr r \<Rightarrow> appendRows f rest (acc @ [r]))"

definition addTopPerformersStyling :: "page \<Rightarrow> page" where
  "addTopPerformersStyling s =
     (if \<not> topPerformersStyles s then s\<lparr>topPerformersStyles := True\<rparr> else s)"

definition setFilterStatus :: "string \<Rightarrow> nat \<Rightarrow> page \<Rightarrow> page" where
  "setFilterStatus searchTerm n s =
     (case filterStatus s of
        None \<Rightarrow> s
      | Some (txt, display) \<Rightarrow>
          if searching searchTerm
          then s\<lparr>filterStatus :=
                   Some (''Showing '' @ natToString n @ '' filtered results with original rankings'',
                         ''block'')\<rparr>
          else s\<lparr>filterStatus := Some (txt, ''none'')\<rparr>)"

text \<open>
  \<open>displayLeaderboard(domain, searchTerm = currentSearchTerm)\<close>; the second argument is
  \<open>None\<close> when the caller leaves it out.
\<close>

definition displayLeaderboard :: "host \<Rightarrow> string \<Rightarrow> string option \<Rightarrow> page \<Rightarrow> outcome" where
  "displayLeaderboard h domain searchArg s =
     (let searchTerm = (case searchArg of None \<Rightarrow> currentSearchTerm s | Some t \<Rightarrow> t)
      in if leaderboardData s = [] then setInnerHTML (messageRow ''4'' ''No data available'') s
         else
           let col = adjustedDomain domain;
               valid = (if columnBeyondText domain then []
                        else validData (leaderboardData s) col searchTerm);
               s1 = setFilterStatus searchTerm (length valid) (s\<lparr>currentSearchTerm := searchTerm\<rparr>)
           in if valid = [] then setInnerHTML (messageRow ''4'' ''No matching results found'') s1
              else
                (case tbody s1 of
                   None \<Rightarrow> Throws nullTypeError s1
                 | Some old \<Rightarrow>
                     (case appendRows (renderRow h (leaderboardData s) col searchTerm)
                                      (sortedData (leaderboardData s) col searchTerm) [] of
                        Inl (msg, rows) \<Rightarrow> Throws msg (s1\<lparr>tbody := Some (RowElems rows)\<rparr>)
                      | Inr rows \<Rightarrow>
                          Returns (addTopPerformersStyling (s1\<lparr>tbody := Some (RowElems rows)\<rparr>)))))"

text \<open>The \<open>catch\<close> block of \<open>loadLeaderboard\<close>.\<close>

definition showLoadError :: "string \<Rightarrow> string \<Rightarrow> page \<Rightarrow> page" where
  "showLoadError colspan msg s =
     (case tbody s of
        None \<Rightarrow> s
      | Some old \<Rightarrow>
          s\<lparr>tbody := Some (InnerHTML (messageRow colspan (''Error loading leaderboard data: '' @ msg)))\<rparr>)"

definition csvFile :: "bool \<Rightarrow> string" where
  "csvFile oracle = (if oracle then ''data/benchmark_oracle.csv'' else ''data/benchmark_results.csv'')"

text \<open>A field that is present and not blank: \<open>d.X && d.X.trim() !== ''\<close>.\<close>

definition present :: "string option \<Rightarrow> bool" where
  "present v = (case v of None \<Rightarrow> False | Some x \<Rightarrow> x \<noteq> [] \<and> trim x \<noteq> [])"

definition loadLeaderboard :: "host \<Rightarrow> page \<Rightarrow> page" where
  "loadLeaderboard h s =
     (let url = csvFile (isOracleMode s);
          s0 = s\<lparr>requests := requests s @ [url]\<rparr>
      in case fetch h url of
           Rejected msg \<Rightarrow> showLoadError ''4'' msg s0
         | Response ok status body \<Rightarrow>
             if \<not> ok then showLoadError ''4'' (''HTTP error! status: '' @ natToString status) s0
             else
               (case body of
                  Inl msg \<Rightarrow> showLoadError ''4'' msg s0
                | Inr csvText \<Rightarrow>
                    (case papaParse h csvText of
                       Inl msg \<Rightarrow> showLoadError ''4'' msg s0
                     | Inr parsed \<Rightarrow>
                         let s1 = s0\<lparr>leaderboardData :=
                                       filter (\<lambda>d. present (field d ''System'')
                                                  \<and> present (field d ''Models'')) parsed\<rparr>
                         in (case displayLeaderboard h (currentDomain s1) None s1 of
                               Returns s2 \<Rightarrow> s2
                             | Throws msg s2 \<Rightarrow> showLoadError ''4'' msg s2))))"

text \<open>
  The oracle toggle. \<open>handleOracleToggle\<close> copies the state of the checkbox into the flag;
  \<open>toggleHandler\<close> (a click on the container, or Enter or Space on it) flips the checkbox
  itself; the \<open>change\<close> listener runs after the browser has flipped it. The pulse
  animation of the container is left out.
\<close>

definition modeTitle :: "bool \<Rightarrow> string" where
  "modeTitle oracle = (if oracle then ''Current Rankings (Oracle Inputs)'' else ''Current Rankings'')"

definition setTitle :: "page \<Rightarrow> page" where
  "setTitle s = (case title s of None \<Rightarrow> s | Some old \<Rightarrow> s\<lparr>title := Some (modeTitle (isOracleMode s))\<rparr>)"

definition handleOracleToggle :: "page \<Rightarrow> page" where
  "handleOracleToggle s = s\<lparr>isOracleMode := toggleChecked s\<rparr>"

definition toggleHandler :: "host \<Rightarrow> page \<Rightarrow> page" where
  "toggleHandler h s =
     (let s1 = s\<lparr>toggleChecked := \<not> toggleChecked s\<rparr>;
          s2 = s1\<lparr>isOracleMode := toggleChecked s1\<rparr>
      in loadLeaderboard h (setTitle s2))"

definition changeListener :: "host \<Rightarrow> page \<Rightarrow> page" where
  "changeListener h s = loadLeaderboard h (setTitle (s\<lparr>isOracleMode := toggleChecked s\<rparr>))"

section \<open>The single-file leaderboard (\<open>script.js\<close>)\<close>

text \<open>
  The content of the paper link is the page icon \<open>U+1F4C4\<close>, which is no code unit of this
  text. The markup of the cell holds its numeric character reference instead, which the
  parser of \<open>innerHTML\<close> reads as that character: the cell built is the same.
\<close>

definition paperIcon :: string where
  "paperIcon = ''&#128196;''"

definition script_renderRow :: "host \<Rightarrow> string \<Rightarrow> nat \<Rightarrow> row \<Rightarrow> tr" where
  \<open>script_renderRow h domain i entry =
     \<lparr>className = (if i < 3 then Some (''rank-'' @ natToString (i + 1)) else None),
      rankCell = Some (i + 1),
      cells = [escapeHtml (field entry ''team''),
               toFixed 1 (or0 (score domain entry)) @ ''%'',
               toFixed 1 (or0 (parseFloat (field entry ''runtime''))) @ ''s'',
               toStr (formatDate h (field entry ''date'')),
               ''<a href="'' @ escapeHtml (field entry ''paper_url'')
                 @ ''" target="_blank" title="View paper">'' @ paperIcon @ ''</a>'']\<rparr>\<close>

definition script_displayLeaderboard :: "host \<Rightarrow> string \<Rightarrow> page \<Rightarrow> outcome" where
  "script_displayLeaderboard h domain s =
     (if leaderboardData s = [] then setInnerHTML (messageRow ''6'' ''No data available'') s
      else
        let valid = filter (hasScore domain) (leaderboardData s)
        in if valid = []
           then setInnerHTML (messageRow ''6'' ''No data available for this domain'') s
           else
             (case tbody s of
                None \<Rightarrow> Throws nullTypeError s
              | Some old \<Rightarrow>
                  let ordered = sortBy (byScore domain) valid
                  in Returns (addTopPerformersStyling
                       (s\<lparr>tbody := Some (RowElems (map (\<lambda>(entry, i). script_renderRow h domain i entry)
                                                        (zip ordered [0..<length ordered])))\<rparr>))))"

definition script_loadLeaderboard :: "host \<Rightarrow> page \<Rightarrow> page" where
  "script_loadLeaderboard h s =
     (let url = ''data/leaderboard.csv'';
          s0 = s\<lparr>requests := requests s @ [url]\<rparr>
      in case fetch h url of
           Rejected msg \<Rightarrow> showLoadError ''6'' msg s0
         | Response ok status body \<Rightarrow>
             if \<not> ok then showLoadError ''6'' (''HTTP error! status: '' @ natToString status) s0
             else
               (case body of
                  Inl msg \<Rightarrow> showLoadError ''6'' msg s0
                | Inr csvText \<Rightarrow>
                    (case papaParse h csvText of
                       Inl msg \<Rightarrow> showLoadError ''6'' msg s0
                     | Inr parsed \<Rightarrow>
                         let s1 = s0\<lparr>leaderboardData := filter (\<lambda>d. present (field d ''team'')) parsed\<rparr>
                         in (case script_displayLeaderboard h (currentDomain s1) s1 of
                               Returns s2 \<Rightarrow> s2
                             | Throws msg s2 \<Rightarrow> showLoadError ''6'' msg s2))))"

section \<open>Auxiliary notions and sample inputs\<close>

text \<open>What a render or the error handler leaves alone.\<close>

definition frame :: "page \<Rightarrow> page \<Rightarrow> bool" where
  "frame s s' =
     (leaderboardData s' = leaderboardData s \<and> requests s' = requests s
      \<and> title s' = title s \<and> isOracleMode s' = isOracleMode s
      \<and> toggleChecked s' = toggleChecked s \<and> currentDomain s' = currentDomain s
      \<and> (tbody s' = None \<longleftrightarrow> tbody s = None))"

text \<open>
  The page when the script starts: the global variables at their initial values, every
  element in place, nothing rendered and nothing requested.
\<close>

definition initialPage :: page where
  "initialPage =
     \<lparr>leaderboardData = [], currentDomain = ''overall'', isOracleMode = False,
      currentSearchTerm = [], tbody = Some (RowElems []), filterStatus = Some ([], ''none''),
      title = Some ''Current Rankings'', toggleChecked = False, topPerformersStyles = False,
      requests = []\<rparr>"

text \<open>
  A host that gives one answer to every request and one result for every CSV text, rejects
  every pattern it is asked to compile and parses no date.
\<close>

definition answering :: "fetched \<Rightarrow> string + row list \<Rightarrow> host" where
  "answering answer parsed =
     \<lparr>fetch = (\<lambda>url. answer), papaParse = (\<lambda>csvText. parsed),
      regExp = (\<lambda>p. Inl ''Invalid regular expression''),
      dateParse = (\<lambda>d. None), dateFormat = (\<lambda>t. [])\<rparr>"

definition serving :: "row list \<Rightarrow> host" where
  "serving rows = answering (Response True 200 (Inr ''csv'')) (Inr rows)"

text \<open>
  A host that serves the two files of the leaderboard with search and oracle mode, each with
  rows of its own, and no other resource; it rejects every pattern and parses no date.
\<close>

definition twoFiles :: "row list \<Rightarrow> row list \<Rightarrow> host" where
  "twoFiles results oracle =
     \<lparr>fetch = (\<lambda>url. if url = ''data/benchmark_results.csv'' then Response True 200 (Inr ''results'')
                     else if url = ''data/benchmark_oracle.csv'' then Response True 200 (Inr ''oracle'')
                     else Response False 404 (Inr [])),
      papaParse = (\<lambda>csvText. if csvText = ''results'' then Inr results
                              else if csvText = ''oracle'' then Inr oracle
                              else Inl ''unknown text''),
      regExp = (\<lambda>p. Inl ''Invalid regular expression''),
      dateParse = (\<lambda>d. None), dateFormat = (\<lambda>t. [])\<rparr>"

text \<open>A host that serves the file of the single-file leaderboard and no other resource.\<close>

definition oneFile :: "row list \<Rightarrow> host" where
  "oneFile rows =
     \<lparr>fetch = (\<lambda>url. if url = ''data/leaderboard.csv'' then Response True 200 (Inr ''csv'')
                     else Response False 404 (Inr [])),
      papaParse = (\<lambda>csvText. Inr rows),
      regExp = (\<lambda>p. Inl ''Invalid regular expression''),
      dateParse = (\<lambda>d. None), dateFormat = (\<lambda>t. [])\<rparr>"

text \<open>What the table body holds after a call, and whether the call returned.\<close>

definition shown :: "outcome \<Rightarrow> tbody_content option" where
  "shown out = (case out of Returns s \<Rightarrow> tbody s | Throws msg s \<Rightarrow> tbody s)"

definition returns :: "outcome \<Rightarrow> bool" where
  "returns out = (case out of Returns s \<Rightarrow> True | Throws msg s \<Rightarrow> False)"

text \<open>The search term a call of \<open>displayLeaderboard\<close> works with.\<close>

definition termOf :: "string option \<Rightarrow> page \<Rightarrow> string" where
  "termOf searchArg s = (case searchArg of None \<Rightarrow> currentSearchTerm s | Some t \<Rightarrow> t)"

text \<open>The row element of an entry when nothing is highlighted.\<close>

definition plainRow :: "row list \<Rightarrow> string \<Rightarrow> row \<Rightarrow> tr" where
  "plainRow data col entry =
     \<lparr>className = (case originalRankMap data col (uniqueId col entry) of
                     None \<Rightarrow> None
                   | Some r \<Rightarrow> if r \<le> 3 then Some (''rank-'' @ natToString r) else None),
      rankCell = originalRankMap data col (uniqueId col entry),
      cells = [escapeHtml (field entry ''System''), escapeHtml (field entry ''Models''),
               toFixed 1 (or0 (score col entry)) @ ''%'']\<rparr>"

text \<open>Two submissions with a score in the \<open>Overall\<close> column.\<close>

definition alpha :: row where
  "alpha = [(''System'', ''Alpha''), (''Models'', ''m1''), (''Overall'', ''90'')]"

definition beta :: row where
  "beta = [(''System'', ''Beta''), (''Models'', ''m2''), (''Overall'', ''80'')]"


definition dashA :: row where
  "dashA = [(''System'', ''A-B''), (''Models'', ''C''), (''Overall'', ''90'')]"

definition dashB :: row where
  "dashB = [(''System'', ''A''), (''Models'', ''B-C''), (''Overall'', ''90'')]"

definition dotted :: row where
  "dotted = [(''System'', ''Alpha''), (''Models'', ''v1.5''), (''Overall'', ''90'')]"

text \<open>A submission with a parenthesis in its name.\<close>

definition paren :: row where
  "paren = [(''System'', ''Alpha (v2)''), (''Models'', ''m1''), (''Overall'', ''90'')]"



text \<open>Two rows of the single-file leaderboard, the second without a numeric score.\<close>

definition teamA :: row where
  "teamA = [(''team'', ''A''), (''overall'', ''90''), (''runtime'', ''1.0''),
            (''date'', ''2024-01-01''), (''paper_url'', ''http://x'')]"

definition teamC :: row where
  "teamC = [(''team'', ''C''), (''overall'', ''abc'')]"

section \<open>What a render leaves alone\<close>

lemma frame_trans: "frame a b \<Longrightarrow> frame b c \<Longrightarrow> frame a c"
  by (auto simp: frame_def)

lemma displayLeaderboard_frame:
  assumes "displayLeaderboard h domain arg s = Returns s' \<or> displayLeaderboard h domain arg s = Throws m s'"
  shows "frame s s'"
  using assms
  unfolding displayLeaderboard_def Let_def
  by (auto simp: frame_def setInnerHTML_def setFilterStatus_def addTopPerformersStyling_def
        split: option.splits sum.splits prod.splits if_splits)

lemma script_displayLeaderboard_frame:
  assumes "script_displayLeaderboard h domain s = Returns s' \<or> script_displayLeaderboard h domain s = Throws m s'"
  shows "frame s s'"
  using assms
  unfolding script_displayLeaderboard_def Let_def
  by (auto simp: frame_def setInnerHTML_def addTopPerformersStyling_def
        split: option.splits sum.splits prod.splits if_splits)

lemma showLoadError_frame: "frame s (showLoadError c m s)"
  by (auto simp: showLoadError_def frame_def split: option.splits)


section \<open>Loading\<close>

lemma after_display_frame:
  "frame s1 (case displayLeaderboard h d a s1 of Returns s2 \<Rightarrow> s2 | Throws msg s2 \<Rightarrow> showLoadError c msg s2)"
proof (cases "displayLeaderboard h d a s1")
  case (Returns s2)
  then show ?thesis using displayLeaderboard_frame by fastforce
next
  case (Throws msg s2)
  then have "frame s1 s2" using displayLeaderboard_frame by blast
  then show ?thesis using Throws showLoadError_frame frame_trans by fastforce
qed

lemma after_script_display_frame:
  "frame s1 (case script_displayLeaderboard h d s1 of Returns s2 \<Rightarrow> s2 | Throws msg s2 \<Rightarrow> showLoadError c msg s2)"
proof (cases "script_displayLeaderboard h d s1")
  case (Returns s2)
  then show ?thesis using script_displayLeaderboard_frame by fastforce
next
  case (Throws msg s2)
  then have "frame s1 s2" using script_displayLeaderboard_frame by blast
  then show ?thesis using Throws showLoadError_frame frame_trans by fastforce
qed

lemma load_stores:
  assumes "fetch h (csvFile (isOracleMode s)) = Response True st (Inr csvText)"
    and "papaParse h csvText = Inr parsed"
  shows "leaderboardData (loadLeaderboard h s) =
           filter (\<lambda>d. present (field d ''System'') \<and> present (field d ''Models'')) parsed"
  using assms after_display_frame[where ?s1.0 = "s\<lparr>requests := requests s @ [csvFile (isOracleMode s)],
      leaderboardData := filter (\<lambda>d. present (field d ''System'') \<and> present (field d ''Models'')) parsed\<rparr>" and h = h and d = "currentDomain s" and a = None and c = "''4''"]
  by (simp add: loadLeaderboard_def frame_def)

lemma script_load_stores:
  assumes "fetch h ''data/leaderboard.csv'' = Response True st (Inr csvText)"
    and "papaParse h csvText = Inr parsed"
  shows "leaderboardData (script_loadLeaderboard h s) = filter (\<lambda>d. present (field d ''team'')) parsed"
  using assms after_script_display_frame[where ?s1.0 = "s\<lparr>requests := requests s @ [''data/leaderboard.csv''],
      leaderboardData := filter (\<lambda>d. present (field d ''team'')) parsed\<rparr>" and h = h and d = "currentDomain s" and c = "''6''"]
  by (simp add: script_loadLeaderboard_def frame_def)

lemma load_requests:
  "requests (loadLeaderboard h s) = requests s @ [csvFile (isOracleMode s)]
   \<and> title (loadLeaderboard h s) = title s \<and> isOracleMode (loadLeaderboard h s) = isOracleMode s
   \<and> toggleChecked (loadLeaderboard h s) = toggleChecked s"
proof -
  let ?s0 = "s\<lparr>requests := requests s @ [csvFile (isOracleMode s)]\<rparr>"
  have a: "frame ?s0 (showLoadError ''4'' m ?s0)" for m by (rule showLoadError_frame)
  have b: "frame (?s0\<lparr>leaderboardData := d\<rparr>)
     (case displayLeaderboard h (currentDomain s) None (?s0\<lparr>leaderboardData := d\<rparr>) of Returns s2 \<Rightarrow> s2 | Throws msg s2 \<Rightarrow> showLoadError ''4'' msg s2)" for d
    by (rule after_display_frame)
  show ?thesis
    using a b
    by (auto simp: loadLeaderboard_def frame_def Let_def split: fetched.splits sum.splits)
qed


lemma present_iff: "present v \<longleftrightarrow> (\<exists>x. v = Some x \<and> trim x \<noteq> [])"
  by (cases v) (auto simp: present_def trim_def)

text \<open>
  Claim C6, as amended. After a load whose request and parse succeed, the stored dataset is
  the parsed rows filtered by the required fields, in their order, whatever the render
  that follows does. Each file is taken on its own, on any host that serves the file it
  requests. The leaderboard with search and oracle mode keeps a row exactly when both
  \<open>System\<close> and \<open>Models\<close> are present and not blank after trimming: the model label is
  required there. The single-file leaderboard keeps a row exactly when \<open>team\<close> is present and
  not blank after trimming.
\<close>

theorem load_required_fields:
  "(fetch h (csvFile (isOracleMode s)) = Response True st (Inr csvText) \<and> papaParse h csvText = Inr parsed
      \<longrightarrow> leaderboardData (loadLeaderboard h s) =
            filter (\<lambda>d. present (field d ''System'') \<and> present (field d ''Models'')) parsed)
   \<and> (fetch h ''data/leaderboard.csv'' = Response True st' (Inr csvText') \<and> papaParse h csvText' = Inr parsed'
      \<longrightarrow> leaderboardData (script_loadLeaderboard h s) = filter (\<lambda>d. present (field d ''team'')) parsed')
   \<and> (present v \<longleftrightarrow> (\<exists>x. v = Some x \<and> trim x \<noteq> []))"
  using load_stores[of h s st csvText parsed] script_load_stores[of h st' csvText' parsed' s]
    present_iff[of v]
  by blast

lemma serving_simps:
  "fetch (serving rows) url = Response True 200 (Inr ''csv'')"
  "papaParse (serving rows) t = Inr rows"
  by (simp_all add: serving_def answering_def)

lemma twoFiles_simps:
  "fetch (twoFiles results oracle) ''data/benchmark_results.csv'' = Response True 200 (Inr ''results'')"
  "fetch (twoFiles results oracle) ''data/benchmark_oracle.csv'' = Response True 200 (Inr ''oracle'')"
  "fetch (twoFiles results oracle) ''data/leaderboard.csv'' = Response False 404 (Inr [])"
  "papaParse (twoFiles results oracle) ''results'' = Inr results"
  "papaParse (twoFiles results oracle) ''oracle'' = Inr oracle"
  by (simp_all add: twoFiles_def)

lemma oneFile_simps:
  "fetch (oneFile rows) ''data/leaderboard.csv'' = Response True 200 (Inr ''csv'')"
  "fetch (oneFile rows) ''data/benchmark_results.csv'' = Response False 404 (Inr [])"
  "papaParse (oneFile rows) t = Inr rows"
  by (simp_all add: oneFile_def)

text \<open>
  The theorem for C6 at a host that serves the results file and not \<open>data/leaderboard.csv\<close>,
  and at a host that serves \<open>data/leaderboard.csv\<close> and not the results file. Of the rows
  served, the one with a name and a model label stays in the dataset of the leaderboard
  with search and oracle mode, and the one with a team stays in the dataset of the
  single-file leaderboard.
\<close>

theorem load_required_fields_witness:
  "fetch (twoFiles [[(''System'', ''Alpha''), (''Models'', ''m1'')], [(''System'', '' ''), (''Models'', ''m2'')],
                    [(''System'', ''Beta'')], [(''team'', ''Gamma'')]] []) ''data/leaderboard.csv''
     = Response False 404 (Inr [])
   \<and> leaderboardData (loadLeaderboard
       (twoFiles [[(''System'', ''Alpha''), (''Models'', ''m1'')], [(''System'', '' ''), (''Models'', ''m2'')],
                  [(''System'', ''Beta'')], [(''team'', ''Gamma'')]] []) initialPage)
     = [[(''System'', ''Alpha''), (''Models'', ''m1'')]]
   \<and> fetch (oneFile [[(''team'', ''Gamma'')], [(''team'', [])], [(''System'', ''Alpha''), (''Models'', ''m1'')]])
        ''data/benchmark_results.csv''
     = Response False 404 (Inr [])
   \<and> leaderboardData (script_loadLeaderboard
       (oneFile [[(''team'', ''Gamma'')], [(''team'', [])], [(''System'', ''Alpha''), (''Models'', ''m1'')]])
       initialPage)
     = [[(''team'', ''Gamma'')]]"
  using load_required_fields[of
      "twoFiles [[(''System'', ''Alpha''), (''Models'', ''m1'')], [(''System'', '' ''), (''Models'', ''m2'')],
                 [(''System'', ''Beta'')], [(''team'', ''Gamma'')]] []"
      initialPage 200 "''results''" _ 200 "[]" "[]" None]
    load_required_fields[of
      "oneFile [[(''team'', ''Gamma'')], [(''team'', [])], [(''System'', ''Alpha''), (''Models'', ''m1'')]]"
      initialPage 200 "[]" "[]" 200 "''csv''" _ None]
  by (simp add: twoFiles_simps oneFile_simps csvFile_def initialPage_def present_def field_def trim_def
        isWhiteSpace_def)

text \<open>
  Claim C6 as stated fails for the leaderboard with search and oracle mode: a row with the
  name \<open>Alpha\<close> and a blank model label, and one with no model column at all, are both
  discarded.
\<close>

theorem blank_model_counterexample:
  "present (field [(''System'', ''Alpha''), (''Models'', [])] ''System'')
   \<and> leaderboardData (loadLeaderboard (serving [[(''System'', ''Alpha''), (''Models'', [])]]) initialPage) = []
   \<and> leaderboardData (loadLeaderboard (serving [[(''System'', ''Alpha'')]]) initialPage) = []"
  using load_stores[of "serving [[(''System'', ''Alpha''), (''Models'', [])]]" initialPage 200 "''csv''"]
        load_stores[of "serving [[(''System'', ''Alpha'')]]" initialPage 200 "''csv''"]
  by (simp add: serving_simps present_def field_def trim_def isWhiteSpace_def)

lemma load_fails:
  assumes "tbody s = Some old"
    and "fetch h (csvFile (isOracleMode s)) = Rejected m
       \<or> (\<exists>st body. fetch h (csvFile (isOracleMode s)) = Response False st body
             \<and> m = ''HTTP error! status: '' @ natToString st)
       \<or> (\<exists>st. fetch h (csvFile (isOracleMode s)) = Response True st (Inl m))
       \<or> (\<exists>st txt. fetch h (csvFile (isOracleMode s)) = Response True st (Inr txt)
             \<and> papaParse h txt = Inl m)"
  shows "leaderboardData (loadLeaderboard h s) = leaderboardData s
       \<and> tbody (loadLeaderboard h s)
           = Some (InnerHTML (messageRow ''4'' (''Error loading leaderboard data: '' @ m)))"
  using assms by (auto simp: loadLeaderboard_def showLoadError_def)

lemma script_load_fails:
  assumes "tbody s = Some old"
    and "fetch h ''data/leaderboard.csv'' = Rejected m
       \<or> (\<exists>st body. fetch h ''data/leaderboard.csv'' = Response False st body
             \<and> m = ''HTTP error! status: '' @ natToString st)
       \<or> (\<exists>st. fetch h ''data/leaderboard.csv'' = Response True st (Inl m))
       \<or> (\<exists>st txt. fetch h ''data/leaderboard.csv'' = Response True st (Inr txt)
             \<and> papaParse h txt = Inl m)"
  shows "leaderboardData (script_loadLeaderboard h s) = leaderboardData s
       \<and> tbody (script_loadLeaderboard h s)
           = Some (InnerHTML (messageRow ''6'' (''Error loading leaderboard data: '' @ m)))"
  using assms by (auto simp: script_loadLeaderboard_def showLoadError_def)

lemma load_fails_row:
  assumes \<open>tbody s = Some old\<close>
    and \<open>fetch h (csvFile (isOracleMode s)) = Rejected m
       \<or> (\<exists>st body. fetch h (csvFile (isOracleMode s)) = Response False st body
             \<and> m = ''HTTP error! status: '' @ natToString st)
       \<or> (\<exists>st. fetch h (csvFile (isOracleMode s)) = Response True st (Inl m))
       \<or> (\<exists>st txt. fetch h (csvFile (isOracleMode s)) = Response True st (Inr txt)
             \<and> papaParse h txt = Inl m)\<close>
  shows \<open>leaderboardData (loadLeaderboard h s) = leaderboardData s
       \<and> tbody (loadLeaderboard h s)
           = Some (InnerHTML (''<tr><td colspan="4" style="text-align: center; color: #dc3545;">''
               @ ''Error loading leaderboard data: '' @ m @ ''</td></tr>''))\<close>
  using load_fails[OF assms] by (simp add: messageRow_def)

lemma script_load_fails_row:
  assumes \<open>tbody s = Some old\<close>
    and \<open>fetch h ''data/leaderboard.csv'' = Rejected m
       \<or> (\<exists>st body. fetch h ''data/leaderboard.csv'' = Response False st body
             \<and> m = ''HTTP error! status: '' @ natToString st)
       \<or> (\<exists>st. fetch h ''data/leaderboard.csv'' = Response True st (Inl m))
       \<or> (\<exists>st txt. fetch h ''data/leaderboard.csv'' = Response True st (Inr txt)
             \<and> papaParse h txt = Inl m)\<close>
  shows \<open>leaderboardData (script_loadLeaderboard h s) = leaderboardData s
       \<and> tbody (script_loadLeaderboard h s)
           = Some (InnerHTML (''<tr><td colspan="6" style="text-align: center; color: #dc3545;">''
               @ ''Error loading leaderboard data: '' @ m @ ''</td></tr>''))\<close>
  using script_load_fails[OF assms] by (simp add: messageRow_def)

text \<open>
  Claim C7. The failures of a load that the claim lists are these: the request is rejected,
  the response is not a success, reading the body of the response is rejected, or the
  parser throws. On a page that has the table body, each of them leaves the stored dataset
  as it was, and the table body then holds one row of one cell, whose text is
  \<open>Error loading leaderboard data: \<close> followed by the message of the failure (for a response
  that is not a success, \<open>HTTP error! status: \<close> and the status). The cell spans four columns
  in the leaderboard with search and oracle mode and six in the single-file leaderboard.

  An exception of the render that follows a successful request and parse is caught by the
  same handler, but is not among these failures: the dataset has been replaced by then
  (lemmas \<open>load_stores\<close> and \<open>script_load_stores\<close>).
\<close>

theorem load_failure_keeps_dataset:
  assumes \<open>tbody s = Some old\<close>
  shows \<open>(fetch h (csvFile (isOracleMode s)) = Rejected m \<longrightarrow>
            leaderboardData (loadLeaderboard h s) = leaderboardData s
          \<and> tbody (loadLeaderboard h s)
              = Some (InnerHTML (''<tr><td colspan="4" style="text-align: center; color: #dc3545;">''
                  @ ''Error loading leaderboard data: '' @ m @ ''</td></tr>'')))
       \<and> (fetch h (csvFile (isOracleMode s)) = Response False st body \<longrightarrow>
            leaderboardData (loadLeaderboard h s) = leaderboardData s
          \<and> tbody (loadLeaderboard h s)
              = Some (InnerHTML (''<tr><td colspan="4" style="text-align: center; color: #dc3545;">''
                  @ ''Error loading leaderboard data: '' @ (''HTTP error! status: '' @ natToString st)
                  @ ''</td></tr>'')))
       \<and> (fetch h (csvFile (isOracleMode s)) = Response True st (Inl m) \<longrightarrow>
            leaderboardData (loadLeaderboard h s) = leaderboardData s
          \<and> tbody (loadLeaderboard h s)
              = Some (InnerHTML (''<tr><td colspan="4" style="text-align: center; color: #dc3545;">''
                  @ ''Error loading leaderboard data: '' @ m @ ''</td></tr>'')))
       \<and> (fetch h (csvFile (isOracleMode s)) = Response True st (Inr txt) \<and> papaParse h txt = Inl m \<longrightarrow>
            leaderboardData (loadLeaderboard h s) = leaderboardData s
          \<and> tbody (loadLeaderboard h s)
              = Some (InnerHTML (''<tr><td colspan="4" style="text-align: center; color: #dc3545;">''
                  @ ''Error loading leaderboard data: '' @ m @ ''</td></tr>'')))
       \<and> (fetch h ''data/leaderboard.csv'' = Rejected m \<longrightarrow>
            leaderboardData (script_loadLeaderboard h s) = leaderboardData s
          \<and> tbody (script_loadLeaderboard h s)
              = Some (InnerHTML (''<tr><td colspan="6" style="text-align: center; color: #dc3545;">''
                  @ ''Error loading leaderboard data: '' @ m @ ''</td></tr>'')))
       \<and> (fetch h ''data/leaderboard.csv'' = Response False st body \<longrightarrow>
            leaderboardData (script_loadLeaderboard h s) = leaderboardData s
          \<and> tbody (script_loadLeaderboard h s)
              = Some (InnerHTML (''<tr><td colspan="6" style="text-align: center; color: #dc3545;">''
                  @ ''Error loading leaderboard data: '' @ (''HTTP error! status: '' @ natToString st)
                  @ ''</td></tr>'')))
       \<and> (fetch h ''data/leaderboard.csv'' = Response True st (Inl m) \<longrightarrow>
            leaderboardData (script_loadLeaderboard h s) = leaderboardData s
          \<and> tbody (script_loadLeaderboard h s)
              = Some (InnerHTML (''<tr><td colspan="6" style="text-align: center; color: #dc3545;">''
                  @ ''Error loading leaderboard data: '' @ m @ ''</td></tr>'')))
       \<and> (fetch h ''data/leaderboard.csv'' = Response True st (Inr txt) \<and> papaParse h txt = Inl m \<longrightarrow>
            leaderboardData (script_loadLeaderboard h s) = leaderboardData s
          \<and> tbody (script_loadLeaderboard h s)
              = Some (InnerHTML (''<tr><td colspan="6" style="text-align: center; color: #dc3545;">''
                  @ ''Error loading leaderboard data: '' @ m @ ''</td></tr>'')))\<close>
proof (intro conjI impI)
  assume "fetch h (csvFile (isOracleMode s)) = Rejected m"
  then show \<open>leaderboardData (loadLeaderboard h s) = leaderboardData s\<close>
    and \<open>tbody (loadLeaderboard h s)
              = Some (InnerHTML (''<tr><td colspan="4" style="text-align: center; color: #dc3545;">''
                  @ ''Error loading leaderboard data: '' @ m @ ''</td></tr>''))\<close>
    using load_fails_row[OF assms, of h m] by blast+
next
  assume "fetch h (csvFile (isOracleMode s)) = Response False st body"
  then show \<open>leaderboardData (loadLeaderboard h s) = leaderboardData s\<close>
    and \<open>tbody (loadLeaderboard h s)
              = Some (InnerHTML (''<tr><td colspan="4" style="text-align: center; color: #dc3545;">''
                  @ ''Error loading leaderboard data: '' @ (''HTTP error! status: '' @ natToString st)
                  @ ''</td></tr>''))\<close>
    using load_fails_row[OF assms, of h "''HTTP error! status: '' @ natToString st"] by blast+
next
  assume "fetch h (csvFile (isOracleMode s)) = Response True st (Inl m)"
  then show \<open>leaderboardData (loadLeaderboard h s) = leaderboardData s\<close>
    and \<open>tbody (loadLeaderboard h s)
              = Some (InnerHTML (''<tr><td colspan="4" style="text-align: center; color: #dc3545;">''
                  @ ''Error loading leaderboard data: '' @ m @ ''</td></tr>''))\<close>
    using load_fails_row[OF assms, of h m] by blast+
next
  assume "fetch h (csvFile (isOracleMode s)) = Response True st (Inr txt) \<and> papaParse h txt = Inl m"
  then show \<open>leaderboardData (loadLeaderboard h s) = leaderboardData s\<close>
    and \<open>tbody (loadLeaderboard h s)
              = Some (InnerHTML (''<tr><td colspan="4" style="text-align: center; color: #dc3545;">''
                  @ ''Error loading leaderboard data: '' @ m @ ''</td></tr>''))\<close>
    using load_fails_row[OF assms, of h m] by blast+
next
  assume "fetch h ''data/leaderboard.csv'' = Rejected m"
  then show \<open>leaderboardData (script_loadLeaderboard h s) = leaderboardData s\<close>
    and \<open>tbody (script_loadLeaderboard h s)
              = Some (InnerHTML (''<tr><td colspan="6" style="text-align: center; color: #dc3545;">''
                  @ ''Error loading leaderboard data: '' @ m @ ''</td></tr>''))\<close>
    using script_load_fails_row[OF assms, of h m] by blast+
next
  assume "fetch h ''data/leaderboard.csv'' = Response False st body"
  then show \<open>leaderboardData (script_loadLeaderboard h s) = leaderboardData s\<close>
    and \<open>tbody (script_loadLeaderboard h s)
              = Some (InnerHTML (''<tr><td colspan="6" style="text-align: center; color: #dc3545;">''
                  @ ''Error loading leaderboard data: '' @ (''HTTP error! status: '' @ natToString st)
                  @ ''</td></tr>''))\<close>
    using script_load_fails_row[OF assms, of h "''HTTP error! status: '' @ natToString st"] by blast+
next
  assume "fetch h ''data/leaderboard.csv'' = Response True st (Inl m)"
  then show \<open>leaderboardData (script_loadLeaderboard h s) = leaderboardData s\<close>
    and \<open>tbody (script_loadLeaderboard h s)
              = Some (InnerHTML (''<tr><td colspan="6" style="text-align: center; color: #dc3545;">''
                  @ ''Error loading leaderboard data: '' @ m @ ''</td></tr>''))\<close>
    using script_load_fails_row[OF assms, of h m] by blast+
next
  assume "fetch h ''data/leaderboard.csv'' = Response True st (Inr txt) \<and> papaParse h txt = Inl m"
  then show \<open>leaderboardData (script_loadLeaderboard h s) = leaderboardData s\<close>
    and \<open>tbody (script_loadLeaderboard h s)
              = Some (InnerHTML (''<tr><td colspan="6" style="text-align: center; color: #dc3545;">''
                  @ ''Error loading leaderboard data: '' @ m @ ''</td></tr>''))\<close>
    using script_load_fails_row[OF assms, of h m] by blast+
qed


lemma digitChar_simps:
  "digitChar 0 = CHR ''0''" "digitChar 1 = CHR ''1''" "digitChar 2 = CHR ''2''"
  "digitChar 3 = CHR ''3''" "digitChar 4 = CHR ''4''" "digitChar 5 = CHR ''5''"
  "digitChar 6 = CHR ''6''" "digitChar 7 = CHR ''7''" "digitChar 8 = CHR ''8''"
  "digitChar 9 = CHR ''9''"
  by code_simp+

lemma natToString_404: "natToString 404 = ''404''"
  by (simp add: natToString.simps digitChar_simps)

text \<open>
  The theorem for C7 at a page with one stored row and at hosts that reject the request,
  answer with the status 404, fail while the body is read, or fail to parse: the row stays
  stored, and the table body holds the error row with the message.
\<close>

theorem load_failure_keeps_dataset_witness:
  \<open>leaderboardData (loadLeaderboard (answering (Rejected ''Failed to fetch'') (Inr []))
       (initialPage\<lparr>leaderboardData := [alpha]\<rparr>)) = [alpha]
   \<and> tbody (loadLeaderboard (answering (Rejected ''Failed to fetch'') (Inr []))
       (initialPage\<lparr>leaderboardData := [alpha]\<rparr>))
     = Some (InnerHTML ''<tr><td colspan="4" style="text-align: center; color: #dc3545;">Error loading leaderboard data: Failed to fetch</td></tr>'')
   \<and> leaderboardData (loadLeaderboard (answering (Response False 404 (Inr [])) (Inr []))
       (initialPage\<lparr>leaderboardData := [alpha]\<rparr>)) = [alpha]
   \<and> tbody (loadLeaderboard (answering (Response False 404 (Inr [])) (Inr []))
       (initialPage\<lparr>leaderboardData := [alpha]\<rparr>))
     = Some (InnerHTML ''<tr><td colspan="4" style="text-align: center; color: #dc3545;">Error loading leaderboard data: HTTP error! status: 404</td></tr>'')
   \<and> leaderboardData (loadLeaderboard (answering (Response True 200 (Inl ''network error'')) (Inr []))
       (initialPage\<lparr>leaderboardData := [alpha]\<rparr>)) = [alpha]
   \<and> tbody (loadLeaderboard (answering (Response True 200 (Inl ''network error'')) (Inr []))
       (initialPage\<lparr>leaderboardData := [alpha]\<rparr>))
     = Some (InnerHTML ''<tr><td colspan="4" style="text-align: center; color: #dc3545;">Error loading leaderboard data: network error</td></tr>'')
   \<and> leaderboardData (loadLeaderboard (answering (Response True 200 (Inr ''csv'')) (Inl ''parse failed''))
       (initialPage\<lparr>leaderboardData := [alpha]\<rparr>)) = [alpha]
   \<and> tbody (loadLeaderboard (answering (Response True 200 (Inr ''csv'')) (Inl ''parse failed''))
       (initialPage\<lparr>leaderboardData := [alpha]\<rparr>))
     = Some (InnerHTML ''<tr><td colspan="4" style="text-align: center; color: #dc3545;">Error loading leaderboard data: parse failed</td></tr>'')
   \<and> leaderboardData (script_loadLeaderboard (answering (Rejected ''Failed to fetch'') (Inr []))
       (initialPage\<lparr>leaderboardData := [alpha]\<rparr>)) = [alpha]
   \<and> tbody (script_loadLeaderboard (answering (Rejected ''Failed to fetch'') (Inr []))
       (initialPage\<lparr>leaderboardData := [alpha]\<rparr>))
     = Some (InnerHTML ''<tr><td colspan="6" style="text-align: center; color: #dc3545;">Error loading leaderboard data: Failed to fetch</td></tr>'')
   \<and> leaderboardData (script_loadLeaderboard (answering (Response False 404 (Inr [])) (Inr []))
       (initialPage\<lparr>leaderboardData := [alpha]\<rparr>)) = [alpha]
   \<and> tbody (script_loadLeaderboard (answering (Response False 404 (Inr [])) (Inr []))
       (initialPage\<lparr>leaderboardData := [alpha]\<rparr>))
     = Some (InnerHTML ''<tr><td colspan="6" style="text-align: center; color: #dc3545;">Error loading leaderboard data: HTTP error! status: 404</td></tr>'')
   \<and> leaderboardData (script_loadLeaderboard (answering (Response True 200 (Inl ''network error'')) (Inr []))
       (initialPage\<lparr>leaderboardData := [alpha]\<rparr>)) = [alpha]
   \<and> tbody (script_loadLeaderboard (answering (Response True 200 (Inl ''network error'')) (Inr []))
       (initialPage\<lparr>leaderboardData := [alpha]\<rparr>))
     = Some (InnerHTML ''<tr><td colspan="6" style="text-align: center; color: #dc3545;">Error loading leaderboard data: network error</td></tr>'')
   \<and> leaderboardData (script_loadLeaderboard (answering (Response True 200 (Inr ''csv'')) (Inl ''parse failed''))
       (initialPage\<lparr>leaderboardData := [alpha]\<rparr>)) = [alpha]
   \<and> tbody (script_loadLeaderboard (answering (Response True 200 (Inr ''csv'')) (Inl ''parse failed''))
       (initialPage\<lparr>leaderboardData := [alpha]\<rparr>))
     = Some (InnerHTML ''<tr><td colspan="6" style="text-align: center; color: #dc3545;">Error loading leaderboard data: parse failed</td></tr>'')\<close>
proof -
  let ?P = "initialPage\<lparr>leaderboardData := [alpha]\<rparr>"
  have t: "tbody ?P = Some (RowElems [])" and d: "leaderboardData ?P = [alpha]"
    by (simp_all add: initialPage_def)
  note r = load_failure_keeps_dataset[OF t, of "answering (Rejected ''Failed to fetch'') (Inr [])"
      "''Failed to fetch''", unfolded d]
  note n = load_failure_keeps_dataset[OF t, of "answering (Response False 404 (Inr [])) (Inr [])"
      _ 404 "Inr []", unfolded d]
  note b = load_failure_keeps_dataset[OF t, of "answering (Response True 200 (Inl ''network error'')) (Inr [])"
      "''network error''" 200, unfolded d]
  note p = load_failure_keeps_dataset[OF t, of "answering (Response True 200 (Inr ''csv'')) (Inl ''parse failed'')"
      "''parse failed''" 200 _ "''csv''", unfolded d]
  show ?thesis
    using r n b p by (simp add: answering_def natToString_404)
qed

section \<open>Dates and escaping\<close>

text \<open>
  Claim C8 fails on the code. \<open>formatDate\<close> of a string never takes the \<open>catch\<close> branch: for
  a string that does not parse as a date it returns \<open>Invalid Date\<close>, not the string.
\<close>

theorem formatDate_never_raw:
  "formatDate h (Some d) = Some (case dateParse h d of None \<Rightarrow> ''Invalid Date'' | Some t \<Rightarrow> dateFormat h t)
   \<and> formatDate (answering r p) (Some ''not a date'') = Some ''Invalid Date''"
  by (simp add: formatDate_def newDate_def toLocaleDateString_def answering_def)

text \<open>
  Claim C10, as amended. \<open>escapeHtml\<close> works character by character: it replaces \<open>&\<close>, \<open><\<close>,
  \<open>>\<close> and the no-break space by their entities and leaves every other character as it is.
  The double quote and the single quote pass through, and the result stands between the
  double quotes of the \<open>href\<close> attribute of the paper link.
\<close>

theorem escapeHtml_replaces_four:
  "escapeHtml (Some (s @ [c] @ t)) =
     escapeHtml (Some s)
       @ (if c = CHR ''&'' then ''&amp;''
          else if c = CHR ''<'' then ''&lt;''
          else if c = CHR ''>'' then ''&gt;''
          else if c = nbsp then ''&nbsp;''
          else [c])
       @ escapeHtml (Some t)
   \<and> escapeHtml (Some []) = []
   \<and> escapeHtml (Some [CHR 0x22]) = [CHR 0x22]
   \<and> escapeHtml (Some [CHR 0x27]) = [CHR 0x27]
   \<and> cells (script_renderRow h domain i entry) ! 4
       = ''<a href='' @ [CHR 0x22] @ escapeHtml (field entry ''paper_url'') @ [CHR 0x22]
           @ '' target='' @ [CHR 0x22] @ ''_blank'' @ [CHR 0x22]
           @ '' title='' @ [CHR 0x22] @ ''View paper'' @ [CHR 0x22] @ ''>'' @ paperIcon @ ''</a>''"
  by (simp add: escapeHtml_def escapeChar_def nbsp_def script_renderRow_def)

text \<open>
  Claim C10 as stated fails: the no-break space is none of \<open>&\<close>, \<open><\<close>, \<open>>\<close>, and it is replaced.
\<close>

theorem escapeHtml_nbsp_counterexample:
  "nbsp \<notin> set ''&<>'' \<and> escapeHtml (Some [nbsp]) = ''&nbsp;'' \<and> escapeHtml (Some [nbsp]) \<noteq> [nbsp]"
  by (simp add: escapeHtml_def escapeChar_def nbsp_def)

section \<open>Evaluating the number functions\<close>

lemma rne_of_int: "rne (of_int m) = m"
  by (simp add: rne_def)

lemma ilog2_of_nat:
  assumes "0 < n"
  shows "ilog2 (of_nat n) = bitlen (int n) - 1"
proof -
  have q: "quotient_of (of_nat n) = (int n, 1)"
    using quotient_of_int[of "int n"] by simp
  have b1: "bitlen 1 = 1" by (simp add: bitlen_alt_def)
  have pos: "0 < int n" using assms by simp
  have ge: "1 \<le> bitlen (int n)" using pos by (simp add: bitlen_alt_def)
  from bitlen_bounds[OF pos] have "2 ^ nat (bitlen (int n) - 1) \<le> int n" by simp
  then have "(of_int (2 ^ nat (bitlen (int n) - 1)) :: rat) \<le> of_int (int n)"
    by (simp only: of_int_le_iff)
  then have "pow2 (bitlen (int n) - 1) \<le> of_nat n"
    using ge by (simp add: pow2_def)
  then show ?thesis
    by (simp add: ilog2_def q b1)
qed

lemma round64_of_nat:
  assumes "n < 2 ^ 53"
  shows "round64 (of_nat n) = Fin (of_nat n)"
proof (cases "n = 0")
  case True
  then show ?thesis by (simp add: round64_def)
next
  case False
  then have pos: "0 < int n" by simp
  define d where "d = bitlen (int n) - 1"
  have il: "ilog2 (of_nat n) = d" using False by (simp add: ilog2_of_nat d_def)
  have d0: "0 \<le> d" using pos by (simp add: d_def bitlen_alt_def)
  from bitlen_bounds[OF pos] have "2 ^ nat d \<le> int n" by (simp add: d_def)
  also have "int n < 2 ^ 53" using assms by (metis of_nat_less_iff of_nat_numeral of_nat_power)
  finally have "(2::int) ^ nat d < 2 ^ 53" .
  then have "nat d < 53"
    by (rule power_less_imp_less_exp[of "2::int", rotated]) simp
  then have d52: "d \<le> 52" by simp
  define k where "k = nat (52 - d)"
  have ulp: "pow2 (d - 52) = 1 / 2 ^ k"
    using d52 by (cases "d = 52") (simp_all add: pow2_def k_def)
  have r: "rne (of_nat n * 2 ^ k) = int n * 2 ^ k"
    using rne_of_int[of "int n * 2 ^ k"] by simp
  have mx: "max d (- 1022) = d" using d0 by simp
  show ?thesis
    using False d52
    by (simp add: round64_def il mx r Let_def ulp)
qed

lemma round64_numeral:
  "(numeral w :: nat) < 2 ^ 53 \<Longrightarrow> round64 (numeral w) = Fin (numeral w)"
  using round64_of_nat[of "numeral w"] by simp

lemma parseFloat_90: "parseFloat (Some ''90'') = Fin 90"
  by (simp add: parseFloat_def trimStart_def isDigit_def digitsVal_def exponentPart_def pow10_def
        isWhiteSpace_def round64_numeral)

lemma parseFloat_abc: "parseFloat (Some ''abc'') = NaN"
  by (simp add: parseFloat_def trimStart_def isDigit_def digitsVal_def exponentPart_def pow10_def isWhiteSpace_def)

lemma parseFloat_undefined: "parseFloat None = NaN"
  by (simp add: parseFloat_def trimStart_def isDigit_def digitsVal_def exponentPart_def pow10_def isWhiteSpace_def)


section \<open>Sorting\<close>

lemma set_insertBy: "set (insertBy cmp x ys) = insert x (set ys)"
  by (induction ys) auto


lemma set_sortBy: "set (sortBy cmp xs) = set xs"
  by (induction xs) (simp_all add: sortBy_def set_insertBy)


lemma mset_insertBy: "mset (insertBy cmp x ys) = add_mset x (mset ys)"
  by (induction ys) auto

lemma mset_sortBy: "mset (sortBy cmp xs) = mset xs"
  by (induction xs) (simp_all add: sortBy_def mset_insertBy)

lemma sorted_insertBy:
  fixes f :: "'a \<Rightarrow> nat"
  assumes "\<And>x y. gt0 (cmp x y) \<longleftrightarrow> f y < f x"
  shows "sorted (map f ys) \<Longrightarrow> sorted (map f (insertBy cmp x ys))"
  using assms by (induction ys) (auto simp: set_insertBy)

lemma sorted_sortBy:
  fixes f :: "'a \<Rightarrow> nat"
  assumes "\<And>x y. gt0 (cmp x y) \<longleftrightarrow> f y < f x"
  shows "sorted (map f (sortBy cmp xs))"
proof (induction xs)
  case Nil
  then show ?case by (simp add: sortBy_def)
next
  case (Cons x xs)
  then show ?case using sorted_insertBy[OF assms] by (simp add: sortBy_def)
qed

section \<open>Ranks\<close>

lemma setRanks_snoc:
  "setRanks col (xs @ [x]) = (setRanks col xs)(uniqueId col x \<mapsto> length xs + 1)"
  by (simp add: setRanks_def)

lemma setRanks_Nil: "setRanks col [] = Map.empty"
  by (simp add: setRanks_def)

lemma setRanks_Some:
  "setRanks col xs k = Some r \<Longrightarrow> 1 \<le> r \<and> r \<le> length xs \<and> uniqueId col (xs ! (r - 1)) = k"
proof (induction xs arbitrary: r rule: rev_induct)
  case Nil
  then show ?case by (simp add: setRanks_Nil)
next
  case (snoc x xs)
  then show ?case
    by (auto simp: setRanks_snoc nth_append split: if_splits)
qed

lemma setRanks_defined:
  "e \<in> set xs \<Longrightarrow> \<exists>r. setRanks col xs (uniqueId col e) = Some r"
proof (induction xs rule: rev_induct)
  case Nil
  then show ?case by simp
next
  case (snoc x xs)
  then show ?case by (auto simp: setRanks_snoc)
qed

lemma setRanks_distinct:
  assumes "distinct (map (uniqueId col) xs)" and "i < length xs"
  shows "setRanks col xs (uniqueId col (xs ! i)) = Some (i + 1)"
  using assms
proof (induction xs rule: rev_induct)
  case Nil
  then show ?case by simp
next
  case (snoc x xs)
  show ?case
  proof (cases "i < length xs")
    case True
    have "xs ! i \<in> set xs" using True by simp
    then have "uniqueId col (xs ! i) \<in> uniqueId col ` set xs" by (rule imageI)
    moreover have "uniqueId col x \<notin> uniqueId col ` set xs" using snoc.prems(1) by simp
    ultimately have "uniqueId col (xs ! i) \<noteq> uniqueId col x" by metis
    then show ?thesis using True snoc by (simp add: setRanks_snoc nth_append)
  next
    case False
    then have "i = length xs" using snoc.prems(2) by simp
    then show ?thesis by (simp add: setRanks_snoc)
  qed
qed

lemma set_allValidData: "set (allValidData data col) = {e \<in> set data. hasScore col e}"
  by (auto simp: allValidData_def set_sortBy)

lemma set_validData: "set (validData data col srch) \<subseteq> {e \<in> set data. hasScore col e}"
  by (auto simp: validData_def Let_def)

lemma validData_unfiltered: "validData data col [] = filter (hasScore col) data"
  by (simp add: validData_def searching_def)

lemma validData_none_valid:
  "filter (hasScore col) data = [] \<Longrightarrow> validData data col srch = []"
  by (simp add: validData_def Let_def)

lemma set_sortedData: "set (sortedData data col srch) = set (validData data col srch)"
  by (simp add: sortedData_def set_sortBy)

lemma byRankOrScore_unfiltered: "byRankOrScore data col [] = byScore col"
  by (intro ext) (simp add: byRankOrScore_def searching_def)

lemma sortedData_unfiltered: "sortedData data col [] = allValidData data col"
  by (simp add: sortedData_def allValidData_def validData_unfiltered byRankOrScore_unfiltered)

lemma rank_defined:
  assumes "e \<in> set data" and "hasScore col e"
  shows "\<exists>r. originalRankMap data col (uniqueId col e) = Some r \<and> 1 \<le> r
             \<and> r \<le> length (allValidData data col)"
proof -
  have "e \<in> set (allValidData data col)" using assms by (simp add: set_allValidData)
  then obtain r where r: "setRanks col (allValidData data col) (uniqueId col e) = Some r"
    using setRanks_defined by blast
  with setRanks_Some[OF r] show ?thesis by (auto simp: originalRankMap_def)
qed

section \<open>What a render shows\<close>

lemma tbody_setFilterStatus: "tbody (setFilterStatus t n s) = tbody s"
  by (simp add: setFilterStatus_def split: option.splits prod.splits)

lemma columnBeyondText_samples [simp]:
  "\<not> columnBeyondText ''overall''" "\<not> columnBeyondText ''biomedical''"
  by (simp_all add: columnBeyondText_def capitalBeyondText_def)

text \<open>For a domain whose column lies beyond the text, no entry is valid.\<close>

lemma displayLeaderboard_beyond:
  assumes "tbody s = Some old" and "leaderboardData s \<noteq> []" and "columnBeyondText domain"
  shows "\<exists>s'. displayLeaderboard h domain arg s = Returns s'
            \<and> tbody s' = Some (InnerHTML (messageRow ''4'' ''No matching results found''))"
  using assms by (simp add: displayLeaderboard_def setInnerHTML_def Let_def tbody_setFilterStatus)


lemma appendRows_total:
  "(\<And>e. e \<in> set es \<Longrightarrow> f e = Inr (g e)) \<Longrightarrow> appendRows f es acc = Inr (acc @ map g es)"
  by (induction es arbitrary: acc) simp_all


lemma renderRow_unfiltered: "renderRow h data col [] e = Inr (plainRow data col e)"
  by (simp add: renderRow_def plainRow_def searching_def Let_def)

lemma displayLeaderboard_unfiltered:
  assumes "tbody s = Some old" and "filter (hasScore (adjustedDomain domain)) (leaderboardData s) \<noteq> []"
    and "\<not> columnBeyondText domain"
  shows "\<exists>s'. displayLeaderboard h domain (Some []) s = Returns s'
            \<and> tbody s' = Some (RowElems (map (plainRow (leaderboardData s) (adjustedDomain domain))
                             (allValidData (leaderboardData s) (adjustedDomain domain))))"
proof -
  have ne: "leaderboardData s \<noteq> []" using assms(2) by auto
  have ap: "appendRows (renderRow h (leaderboardData s) (adjustedDomain domain) [])
              (allValidData (leaderboardData s) (adjustedDomain domain)) []
            = Inr ([] @ map (plainRow (leaderboardData s) (adjustedDomain domain))
                 (allValidData (leaderboardData s) (adjustedDomain domain)))"
    by (rule appendRows_total) (rule renderRow_unfiltered)
  show ?thesis
    using assms ne ap
    by (simp add: displayLeaderboard_def Let_def validData_unfiltered sortedData_unfiltered
          tbody_setFilterStatus addTopPerformersStyling_def)
qed

section \<open>Sorting by rank\<close>

lemma sortedData_by_rank:
  assumes "searching srch"
  shows "sorted (map (\<lambda>e. rankOr999 (originalRankMap data col) (uniqueId col e))
                 (sortedData data col srch))"
  unfolding sortedData_def
  by (rule sorted_sortBy) (simp add: byRankOrScore_def assms)

lemma rankOr999_valid:
  assumes "e \<in> set data" and "hasScore col e"
  shows "originalRankMap data col (uniqueId col e)
           = Some (rankOr999 (originalRankMap data col) (uniqueId col e))"
  using rank_defined[OF assms] by (auto simp: rankOr999_def)

section \<open>Sample renders\<close>

lemma floor_nat_half: "\<lfloor>(of_nat k :: rat) + 1 / 2\<rfloor> = int k"
  by (rule floor_unique) simp_all

lemma toFixed_of_nat:
  assumes "n < 10 ^ 21"
  shows "toFixed f (Fin (of_nat n)) =
           (let m = natToString (n * 10 ^ f)
            in if f = 0 then m
               else let m0 = replicate (f + 1 - length m) (CHR ''0'') @ m; k = length m0
                    in take (k - f) m0 @ ''.'' @ drop (k - f) m0)"
proof -
  have "(of_nat n :: rat) < of_nat (10 ^ 21)" using assms by (simp only: of_nat_less_iff)
  then have small: "\<not> (10 ^ 21 \<le> \<bar>of_nat n :: rat\<bar>)" by simp
  have "\<bar>of_nat n :: rat\<bar> * 10 ^ f = of_nat (n * 10 ^ f)" by simp
  then have "\<lfloor>\<bar>of_nat n :: rat\<bar> * 10 ^ f + 1 / 2\<rfloor> = int (n * 10 ^ f)"
    by (simp only: floor_nat_half)
  then have fl: "nat \<lfloor>\<bar>of_nat n :: rat\<bar> * 10 ^ f + 1 / 2\<rfloor> = n * 10 ^ f"
    by (simp only: nat_int)
  show ?thesis
    unfolding toFixed_def jsnum.case by (simp only: small fl if_False) simp
qed

lemma natToString_samples:
  "natToString 90000 = ''90000''" "natToString 900 = ''900''"
  "natToString 80000 = ''80000''" "natToString 800 = ''800''"
  by (simp_all add: natToString.simps digitChar_simps)

lemma toFixed_90: "toFixed 3 (Fin 90) = ''90.000''" "toFixed (Suc 0) (Fin 90) = ''90.0''"
  using toFixed_of_nat[of 90 3] toFixed_of_nat[of 90 1] by (simp_all add: natToString_samples)

lemma toFixed_80: "toFixed 3 (Fin 80) = ''80.000''" "toFixed (Suc 0) (Fin 80) = ''80.0''"
  using toFixed_of_nat[of 80 3] toFixed_of_nat[of 80 1] by (simp_all add: natToString_samples)

lemma parseFloat_80: "parseFloat (Some ''80'') = Fin 80"
  by (simp add: parseFloat_def trimStart_def isDigit_def digitsVal_def exponentPart_def pow10_def
        isWhiteSpace_def round64_numeral)

lemma adjustedDomain_overall: "adjustedDomain ''overall'' = ''Overall''"
  by code_simp

lemma adjustedDomain_biomedical: "adjustedDomain ''biomedical'' = ''Biomedical''"
  by code_simp

lemma score_samples:
  "score ''Overall'' alpha = Fin 90" "score ''Overall'' beta = Fin 80"
  "score ''Biomedical'' alpha = NaN" "score ''Biomedical'' beta = NaN"
  by (simp_all add: score_def field_def alpha_def beta_def parseFloat_90 parseFloat_80 parseFloat_undefined)

lemma hasScore_samples:
  "hasScore ''Overall'' alpha" "hasScore ''Overall'' beta"
  "\<not> hasScore ''Biomedical'' alpha" "\<not> hasScore ''Biomedical'' beta"
  by (simp_all add: hasScore_def score_samples isNaN_def)

lemma uniqueId_samples:
  "uniqueId ''Overall'' alpha = ''Alpha-m1-90.000''"
  "uniqueId ''Overall'' beta = ''Beta-m2-80.000''"
  by (simp_all add: uniqueId_def score_samples toFixed_90 toFixed_80 toStr_def)
    (simp_all add: field_def alpha_def beta_def)


lemma allValidData_samples: "allValidData [beta, alpha] ''Overall'' = [alpha, beta]"
  by (simp add: allValidData_def hasScore_samples sortBy_def byScore_def score_samples)

lemma originalRankMap_samples:
  "originalRankMap [beta, alpha] ''Overall'' ''Alpha-m1-90.000'' = Some 1"
  "originalRankMap [beta, alpha] ''Overall'' ''Beta-m2-80.000'' = Some 2"
  by (simp_all add: originalRankMap_def allValidData_samples setRanks_def uniqueId_samples)

lemma searching_beta: "searching ''beta''" "trim ''beta'' = ''beta''"
  by (simp_all add: searching_def trim_def isWhiteSpace_def)

lemma toLowerCase_samples:
  "toLowerCase ''Alpha'' = ''alpha''" "toLowerCase ''Beta'' = ''beta''"
  "toLowerCase ''m1'' = ''m1''" "toLowerCase ''m2'' = ''m2''" "toLowerCase ''beta'' = ''beta''"
  by code_simp+

lemma matchesSearch_beta: "matchesSearch ''beta'' beta" "\<not> matchesSearch ''beta'' alpha"
  by (simp_all add: matchesSearch_def searching_beta alpha_def beta_def field_def orEmpty_def
        toLowerCase_samples)

lemma validData_beta: "validData [beta, alpha] ''Overall'' ''beta'' = [beta]"
  by (simp add: validData_def hasScore_samples searching_beta matchesSearch_beta)

lemma sortedData_beta: "sortedData [beta, alpha] ''Overall'' ''beta'' = [beta]"
  by (simp add: sortedData_def validData_beta sortBy_def)

lemma highlighter_beta: "highlighter h ''beta'' = Inr (markAll (atoms ''beta''))"
  by (simp add: highlighter_def searching_beta escapeHtml_def escapeChar_def nbsp_def
        plainPattern_def syntaxChars_def)

lemma markAll_beta:
  "markAll (atoms ''beta'') ''Beta'' = ''<mark>Beta</mark>''"
  "markAll (atoms ''beta'') ''m2'' = ''m2''"
  by code_simp+

lemma natToString_small:
  "natToString (Suc 0) = ''1''" "natToString 2 = ''2''" "natToString 3 = ''3''"
  using digitChar_simps(2) by (simp_all add: natToString.simps digitChar_simps)

lemma field_samples:
  "field alpha ''System'' = Some ''Alpha''" "field alpha ''Models'' = Some ''m1''"
  "field beta ''System'' = Some ''Beta''" "field beta ''Models'' = Some ''m2''"
  by (simp_all add: field_def alpha_def beta_def)

lemma escapeHtml_samples:
  "escapeHtml (Some ''Alpha'') = ''Alpha''" "escapeHtml (Some ''m1'') = ''m1''"
  "escapeHtml (Some ''Beta'') = ''Beta''" "escapeHtml (Some ''m2'') = ''m2''"
  by (simp_all add: escapeHtml_def escapeChar_def nbsp_def)

lemma renderRow_beta:
  "renderRow h [beta, alpha] ''Overall'' ''beta'' beta
     = Inr \<lparr>className = Some ''rank-2'', rankCell = Some 2,
             cells = [''<mark>Beta</mark>'', ''m2'', ''80.0%'']\<rparr>"
  by (simp add: renderRow_def uniqueId_samples originalRankMap_samples searching_beta
        highlighter_beta score_samples toFixed_80 natToString_small
        field_samples escapeHtml_samples markAll_beta del: markAll.simps)

lemma displayLeaderboard_returns:
  assumes "tbody s = Some old"
    and "validData (leaderboardData s) (adjustedDomain domain) srch \<noteq> []"
    and "\<And>e. e \<in> set (sortedData (leaderboardData s) (adjustedDomain domain) srch) \<Longrightarrow>
            renderRow h (leaderboardData s) (adjustedDomain domain) srch e = Inr (g e)"
    and "\<not> columnBeyondText domain"
  shows "returns (displayLeaderboard h domain (Some srch) s)
       \<and> shown (displayLeaderboard h domain (Some srch) s)
           = Some (RowElems (map g (sortedData (leaderboardData s) (adjustedDomain domain) srch)))"
proof -
  have ne: "leaderboardData s \<noteq> []"
    using assms(2) by (cases "leaderboardData s") (auto simp: validData_def Let_def split: if_splits)
  have ap: "appendRows (renderRow h (leaderboardData s) (adjustedDomain domain) srch)
              (sortedData (leaderboardData s) (adjustedDomain domain) srch) []
            = Inr ([] @ map g (sortedData (leaderboardData s) (adjustedDomain domain) srch))"
    by (rule appendRows_total) (rule assms(3))
  show ?thesis
    using assms(1,2,4) ne ap
    by (simp add: displayLeaderboard_def Let_def tbody_setFilterStatus addTopPerformersStyling_def
          returns_def shown_def)
qed

lemma returns_shown:
  assumes "returns out" and "shown out = Some (RowElems rows)"
  shows "\<exists>s'. out = Returns s' \<and> tbody s' = Some (RowElems rows)"
  using assms by (cases out) (simp_all add: returns_def shown_def)

lemma render_beta:
  "returns (displayLeaderboard h ''overall'' (Some ''beta'') (initialPage\<lparr>leaderboardData := [beta, alpha]\<rparr>))
   \<and> shown (displayLeaderboard h ''overall'' (Some ''beta'') (initialPage\<lparr>leaderboardData := [beta, alpha]\<rparr>))
      = Some (RowElems [\<lparr>className = Some ''rank-2'', rankCell = Some 2,
                          cells = [''<mark>Beta</mark>'', ''m2'', ''80.0%'']\<rparr>])"
  using displayLeaderboard_returns[of "initialPage\<lparr>leaderboardData := [beta, alpha]\<rparr>" "RowElems []"
      "''overall''" "''beta''" h
      "\<lambda>e. \<lparr>className = Some ''rank-2'', rankCell = Some 2,
                          cells = [''<mark>Beta</mark>'', ''m2'', ''80.0%'']\<rparr>"]
  by (simp add: initialPage_def adjustedDomain_overall validData_beta sortedData_beta renderRow_beta)

lemma render_unfiltered_samples:
  "returns (displayLeaderboard h ''overall'' (Some []) (initialPage\<lparr>leaderboardData := [beta, alpha]\<rparr>))
   \<and> shown (displayLeaderboard h ''overall'' (Some []) (initialPage\<lparr>leaderboardData := [beta, alpha]\<rparr>))
      = Some (RowElems [\<lparr>className = Some ''rank-1'', rankCell = Some 1,
                          cells = [''Alpha'', ''m1'', ''90.0%'']\<rparr>,
                        \<lparr>className = Some ''rank-2'', rankCell = Some 2,
                          cells = [''Beta'', ''m2'', ''80.0%'']\<rparr>])"
proof -
  have "filter (hasScore (adjustedDomain ''overall'')) (leaderboardData (initialPage\<lparr>leaderboardData := [beta, alpha]\<rparr>)) \<noteq> []"
    by (simp add: adjustedDomain_overall hasScore_samples)
  from displayLeaderboard_unfiltered[OF _ this, of "RowElems []" h]
  show ?thesis
    by (auto simp: initialPage_def returns_def shown_def adjustedDomain_overall allValidData_samples
          plainRow_def uniqueId_samples originalRankMap_samples natToString_small field_samples
          escapeHtml_samples score_samples toFixed_90 toFixed_80)
qed

section \<open>The unfiltered order\<close>

lemma gt0_jsminus: "x \<noteq> NaN \<Longrightarrow> y \<noteq> NaN \<Longrightarrow> gt0 (jsminus x y) \<longleftrightarrow> jsless y x"
  by (cases x; cases y) simp_all

lemma jsless_trans_neg:
  "x \<noteq> NaN \<Longrightarrow> y \<noteq> NaN \<Longrightarrow> z \<noteq> NaN \<Longrightarrow> \<not> jsless x y \<Longrightarrow> \<not> jsless y z \<Longrightarrow> \<not> jsless x z"
  by (cases x; cases y; cases z) simp_all

lemma jsless_asym: "jsless x y \<Longrightarrow> \<not> jsless y x"
  by (cases x; cases y) simp_all

lemma hasScore_not_NaN: "hasScore col e \<Longrightarrow> score col e \<noteq> NaN \<and> or0 (score col e) = score col e"
  by (cases "score col e") (simp_all add: hasScore_def isNaN_def)

lemma byScore_valid:
  "hasScore col a \<Longrightarrow> hasScore col b \<Longrightarrow> gt0 (byScore col a b) \<longleftrightarrow> jsless (score col a) (score col b)"
  using hasScore_not_NaN[of col a] hasScore_not_NaN[of col b]
  by (simp add: byScore_def gt0_jsminus)

lemma descending_insertBy:
  assumes "hasScore col x" and "\<forall>y \<in> set ys. hasScore col y"
    and "sorted_wrt (\<lambda>a b. \<not> jsless (score col a) (score col b)) ys"
  shows "sorted_wrt (\<lambda>a b. \<not> jsless (score col a) (score col b)) (insertBy (byScore col) x ys)"
  using assms
proof (induction ys)
  case Nil
  then show ?case by simp
next
  case (Cons y ys)
  show ?case
  proof (cases "gt0 (byScore col x y)")
    case True
    then have xy: "jsless (score col x) (score col y)"
      using byScore_valid[of col x y] Cons.prems by simp
    have "\<forall>z \<in> set (insertBy (byScore col) x ys). \<not> jsless (score col y) (score col z)"
      using Cons.prems(3) jsless_asym[OF xy] by (auto simp: set_insertBy)
    then show ?thesis using True Cons by simp
  next
    case False
    then have xy: "\<not> jsless (score col x) (score col y)"
      using byScore_valid[of col x y] Cons.prems by simp
    have "\<not> jsless (score col x) (score col z)" if "z \<in> set ys" for z
    proof -
      have "\<not> jsless (score col y) (score col z)" using Cons.prems(3) that by simp
      then show ?thesis
        using jsless_trans_neg[of "score col x" "score col y" "score col z"] xy
          hasScore_not_NaN[of col x] hasScore_not_NaN[of col y] hasScore_not_NaN[of col z]
          Cons.prems(1,2) that
        by simp
    qed
    then show ?thesis using False xy Cons.prems(3) by simp
  qed
qed

lemma allValidData_descending:
  "sorted_wrt (\<lambda>a b. \<not> jsless (score col a) (score col b)) (allValidData data col)"
proof -
  have "sorted_wrt (\<lambda>a b. \<not> jsless (score col a) (score col b)) (sortBy (byScore col) xs)"
    if "\<forall>x \<in> set xs. hasScore col x" for xs
    using that
  proof (induction xs)
    case Nil
    then show ?case by (simp add: sortBy_def)
  next
    case (Cons x xs)
    then have "sorted_wrt (\<lambda>a b. \<not> jsless (score col a) (score col b))
                 (insertBy (byScore col) x (sortBy (byScore col) xs))"
      by (intro descending_insertBy) (simp_all add: set_sortBy)
    then show ?case by (simp add: sortBy_def)
  qed
  then show ?thesis by (simp add: allValidData_def)
qed

section \<open>Search keeps the ranks\<close>

lemma highlighter_plain:
  "plainPattern (escapeHtml (Some (trim srch))) \<Longrightarrow>
     highlighter h srch = Inr (markAll (atoms (escapeHtml (Some (trim srch)))))"
  by (simp add: highlighter_def)

lemma renderRow_searching:
  assumes "searching srch" and "highlighter h srch = Inr mark"
  shows "renderRow h data col srch e =
           Inr ((plainRow data col e)\<lparr>cells := [mark (escapeHtml (field e ''System'')),
                                                 mark (escapeHtml (field e ''Models'')),
                                                 toFixed 1 (or0 (score col e)) @ ''%'']\<rparr>)"
  using assms by (simp add: renderRow_def plainRow_def Let_def)

text \<open>
  Where the pattern of the highlight compiles, a search keeps the ranks. On a page with
  the table body, take a column within the text and a search term whose highlight pattern
  compiles and which at least one valid row matches. The render with the term and the
  render without a term both show rows. The entries shown under the search are the valid
  entries that match the term, each as often as it occurs. Each row shown under the search
  carries the rank that the same entry carries in the unfiltered render, and that is the
  value the rank map holds for the identifier of the entry. The ranks of the rows shown
  under the search ascend.
\<close>

lemma search_keeps_ranks:
  assumes "tbody s = Some old"
    and "searching srch"
    and "highlighter h srch = Inr mark"
    and "validData (leaderboardData s) (adjustedDomain domain) srch \<noteq> []"
    and "\<not> columnBeyondText domain"
  shows "\<exists>s1 rows1 s0 rows0.
           displayLeaderboard h domain (Some srch) s = Returns s1
         \<and> tbody s1 = Some (RowElems rows1)
         \<and> displayLeaderboard h domain (Some []) s = Returns s0
         \<and> tbody s0 = Some (RowElems rows0)
         \<and> length rows0 = length (sortedData (leaderboardData s) (adjustedDomain domain) [])
         \<and> length rows1 = length (sortedData (leaderboardData s) (adjustedDomain domain) srch)
         \<and> mset (sortedData (leaderboardData s) (adjustedDomain domain) [])
             = mset (filter (hasScore (adjustedDomain domain)) (leaderboardData s))
         \<and> mset (sortedData (leaderboardData s) (adjustedDomain domain) srch)
             = mset (filter (matchesSearch srch)
                      (filter (hasScore (adjustedDomain domain)) (leaderboardData s)))
         \<and> (\<forall>i < length rows1. \<forall>j < length rows0.
               sortedData (leaderboardData s) (adjustedDomain domain) [] ! j
                 = sortedData (leaderboardData s) (adjustedDomain domain) srch ! i
               \<longrightarrow> rankCell (rows1 ! i) = rankCell (rows0 ! j))
         \<and> (\<forall>i < length rows1.
               rankCell (rows1 ! i)
                 = originalRankMap (leaderboardData s) (adjustedDomain domain)
                     (uniqueId (adjustedDomain domain)
                        (sortedData (leaderboardData s) (adjustedDomain domain) srch ! i)))
         \<and> (\<forall>r \<in> set rows1. rankCell r \<noteq> None)
         \<and> sorted (map (\<lambda>r. the (rankCell r)) rows1)"
proof -
  let ?data = "leaderboardData s"
  let ?col = "adjustedDomain domain"
  let ?sd1 = "sortedData ?data ?col srch"
  let ?sd0 = "sortedData ?data ?col []"
  let ?g = "\<lambda>e. (plainRow ?data ?col e)\<lparr>cells := [mark (escapeHtml (field e ''System'')),
                                                 mark (escapeHtml (field e ''Models'')),
                                                 toFixed 1 (or0 (score ?col e)) @ ''%'']\<rparr>"
  let ?rows1 = "map ?g ?sd1"
  let ?rows0 = "map (plainRow ?data ?col) (allValidData ?data ?col)"
  from displayLeaderboard_returns[OF assms(1,4) _ assms(5), of h ?g] renderRow_searching[OF assms(2,3)]
  have "returns (displayLeaderboard h domain (Some srch) s)"
    and "shown (displayLeaderboard h domain (Some srch) s) = Some (RowElems ?rows1)"
    by simp_all
  then obtain s1 where s1: "displayLeaderboard h domain (Some srch) s = Returns s1"
    and t1: "tbody s1 = Some (RowElems ?rows1)"
    using returns_shown by blast
  have nonempty: "filter (hasScore ?col) ?data \<noteq> []"
    using assms(4) validData_none_valid by blast
  from displayLeaderboard_unfiltered[OF assms(1) nonempty assms(5), of h]
  obtain s0 where s0: "displayLeaderboard h domain (Some []) s = Returns s0"
    and t0: "tbody s0 = Some (RowElems ?rows0)"
    by blast
  have len0: "length ?rows0 = length ?sd0" by (simp add: sortedData_unfiltered)
  have len1: "length ?rows1 = length ?sd1" by simp
  have ms0: "mset ?sd0 = mset (filter (hasScore ?col) ?data)"
    by (simp add: sortedData_def mset_sortBy validData_unfiltered)
  have ms1: "mset ?sd1 = mset (filter (matchesSearch srch) (filter (hasScore ?col) ?data))"
    using assms(2) by (simp add: sortedData_def mset_sortBy validData_def)
  have rk1: "rankCell (?rows1 ! i) = originalRankMap ?data ?col (uniqueId ?col (?sd1 ! i))"
    if "i < length ?rows1" for i
    using that by (simp add: plainRow_def)
  have rk0: "rankCell (?rows0 ! j) = originalRankMap ?data ?col (uniqueId ?col (?sd0 ! j))"
    if "j < length ?rows0" for j
    using that by (simp add: sortedData_unfiltered plainRow_def)
  have same: "\<forall>i < length ?rows1. \<forall>j < length ?rows0. ?sd0 ! j = ?sd1 ! i
                \<longrightarrow> rankCell (?rows1 ! i) = rankCell (?rows0 ! j)"
    using rk1 rk0 by simp
  have valid1: "e \<in> set ?data \<and> hasScore ?col e" if "e \<in> set ?sd1" for e
    using that set_validData[of ?data ?col srch] by (auto simp: set_sortedData)
  have gk: "rankCell (?g e) = originalRankMap ?data ?col (uniqueId ?col e)" for e
    by (simp add: plainRow_def)
  have gsome: "rankCell (?g e) = Some (rankOr999 (originalRankMap ?data ?col) (uniqueId ?col e))"
    if "e \<in> set ?sd1" for e
    using valid1[OF that] rankOr999_valid gk by simp
  have defined: "\<forall>r \<in> set ?rows1. rankCell r \<noteq> None"
  proof
    fix r assume "r \<in> set ?rows1"
    then obtain e where "e \<in> set ?sd1" and "r = ?g e" by auto
    then show "rankCell r \<noteq> None" using gsome by simp
  qed
  have "map (\<lambda>r. the (rankCell r)) ?rows1 = map (\<lambda>e. the (rankCell (?g e))) ?sd1"
    by (simp add: comp_def)
  also have "\<dots> = map (\<lambda>e. rankOr999 (originalRankMap ?data ?col) (uniqueId ?col e)) ?sd1"
    by (rule map_cong[OF refl]) (simp only: gsome option.sel)
  finally have eq: "map (\<lambda>r. the (rankCell r)) ?rows1
          = map (\<lambda>e. rankOr999 (originalRankMap ?data ?col) (uniqueId ?col e)) ?sd1" .
  have srt: "sorted (map (\<lambda>r. the (rankCell r)) ?rows1)"
    unfolding eq by (rule sortedData_by_rank[OF assms(2)])
  show ?thesis
    using s1 t1 s0 t0 len0 len1 ms0 ms1 same rk1 defined srt by blast
qed


text \<open>
  The hypotheses of this lemma hold of the dataset \<open>Beta\<close>, \<open>Alpha\<close> and the search term
  \<open>beta\<close>: the row \<open>Beta\<close> keeps its rank 2.
\<close>

lemma search_keeps_ranks_sample:
  "tbody (initialPage\<lparr>leaderboardData := [beta, alpha]\<rparr>) = Some (RowElems [])
   \<and> searching ''beta''
   \<and> highlighter (serving []) ''beta'' = Inr (markAll (atoms ''beta''))
   \<and> validData [beta, alpha] ''Overall'' ''beta'' = [beta]
   \<and> returns (displayLeaderboard (serving []) ''overall'' (Some ''beta'')
              (initialPage\<lparr>leaderboardData := [beta, alpha]\<rparr>))
   \<and> shown (displayLeaderboard (serving []) ''overall'' (Some ''beta'')
              (initialPage\<lparr>leaderboardData := [beta, alpha]\<rparr>))
       = Some (RowElems [\<lparr>className = Some ''rank-2'', rankCell = Some 2,
                           cells = [''<mark>Beta</mark>'', ''m2'', ''80.0%'']\<rparr>])
   \<and> returns (displayLeaderboard (serving []) ''overall'' (Some [])
              (initialPage\<lparr>leaderboardData := [beta, alpha]\<rparr>))
   \<and> shown (displayLeaderboard (serving []) ''overall'' (Some [])
              (initialPage\<lparr>leaderboardData := [beta, alpha]\<rparr>))
       = Some (RowElems [\<lparr>className = Some ''rank-1'', rankCell = Some 1,
                           cells = [''Alpha'', ''m1'', ''90.0%'']\<rparr>,
                         \<lparr>className = Some ''rank-2'', rankCell = Some 2,
                           cells = [''Beta'', ''m2'', ''80.0%'']\<rparr>])"
proof -
  let ?P = "initialPage\<lparr>leaderboardData := [beta, alpha]\<rparr>"
  have t: "tbody ?P = Some (RowElems [])" by (simp add: initialPage_def)
  have v: "validData (leaderboardData ?P) (adjustedDomain ''overall'') ''beta'' \<noteq> []"
    by (simp add: adjustedDomain_overall validData_beta)
  from search_keeps_ranks[OF t searching_beta(1) highlighter_beta[of "serving []"] v
      columnBeyondText_samples(1)]
  obtain s1 s0 where "displayLeaderboard (serving []) ''overall'' (Some ''beta'') ?P = Returns s1"
    and "displayLeaderboard (serving []) ''overall'' (Some []) ?P = Returns s0"
    by blast
  then have "returns (displayLeaderboard (serving []) ''overall'' (Some ''beta'') ?P)
      \<and> returns (displayLeaderboard (serving []) ''overall'' (Some []) ?P)"
    by (simp add: returns_def)
  then show ?thesis
    using t searching_beta(1) highlighter_beta[of "serving []"] validData_beta
      render_beta[of "serving []"] render_unfiltered_samples[of "serving []"]
    by simp
qed

section \<open>A search term that does not compile\<close>

lemma paren_samples:
  "score ''Overall'' paren = Fin 90" "hasScore ''Overall'' paren"
  "uniqueId ''Overall'' paren = ''Alpha (v2)-m1-90.000''"
  "field paren ''System'' = Some ''Alpha (v2)''" "field paren ''Models'' = Some ''m1''"
  by (simp_all add: score_def hasScore_def isNaN_def uniqueId_def toStr_def field_def paren_def
        parseFloat_90 toFixed_90)

text \<open>
  The search term \<open>(\<close> is found in the name \<open>Alpha (v2)\<close> by the filter, which reads it as
  text; the pattern of its highlight is \<open>(()\<close>, which is handed to \<open>new RegExp\<close>.
\<close>

lemma paren_term:
  "searching ''(''" "trim ''('' = ''(''" "matchesSearch ''('' paren"
  "highlighter h ''('' = regExp h ''(()''"
  by (simp_all add: searching_def trim_def isWhiteSpace_def matchesSearch_def paren_samples orEmpty_def
        toLowerCase_def toLowerChar_def isUpper_def highlighter_def escapeHtml_def escapeChar_def
        nbsp_def plainPattern_def syntaxChars_def)

lemma paren_ranks:
  "validData [paren] ''Overall'' ''('' = [paren]"
  "sortedData [paren] ''Overall'' ''('' = [paren]"
  "allValidData [paren] ''Overall'' = [paren]"
  "originalRankMap [paren] ''Overall'' ''Alpha (v2)-m1-90.000'' = Some 1"
  by (simp_all add: validData_def sortedData_def sortBy_def paren_term paren_samples
        originalRankMap_def allValidData_def setRanks_def)

text \<open>
  Claim C1 fails on the code. The search term is compiled as a regular expression for the
  highlight, after the table body was emptied. On every host on which compiling the pattern
  \<open>(()\<close> throws, as the unterminated group makes it do, the dataset with the one row
  \<open>Alpha (v2)\<close> and the search term \<open>(\<close> give this: the row survives the search filter, the
  render without a term shows it with the rank 1, and the render with the term throws and
  leaves the table body without any row. So a row that survives the filter is not
  displayed, with no rank at all.
\<close>

theorem unterminated_group_shows_no_row:
  assumes "regExp h ''(()'' = Inl msg"
  shows "validData [paren] ''Overall'' ''('' = [paren]
       \<and> returns (displayLeaderboard h ''overall'' (Some []) (initialPage\<lparr>leaderboardData := [paren]\<rparr>))
       \<and> shown (displayLeaderboard h ''overall'' (Some []) (initialPage\<lparr>leaderboardData := [paren]\<rparr>))
           = Some (RowElems [\<lparr>className = Some ''rank-1'', rankCell = Some 1,
                               cells = [''Alpha (v2)'', ''m1'', ''90.0%'']\<rparr>])
       \<and> \<not> returns (displayLeaderboard h ''overall'' (Some ''('') (initialPage\<lparr>leaderboardData := [paren]\<rparr>))
       \<and> shown (displayLeaderboard h ''overall'' (Some ''('') (initialPage\<lparr>leaderboardData := [paren]\<rparr>))
           = Some (RowElems [])"
proof -
  let ?P = "initialPage\<lparr>leaderboardData := [paren]\<rparr>"
  have "filter (hasScore (adjustedDomain ''overall'')) (leaderboardData ?P) \<noteq> []"
    by (simp add: adjustedDomain_overall paren_samples)
  from displayLeaderboard_unfiltered[OF _ this, of "RowElems []" h]
  have plain: "returns (displayLeaderboard h ''overall'' (Some []) ?P)
       \<and> shown (displayLeaderboard h ''overall'' (Some []) ?P)
           = Some (RowElems [\<lparr>className = Some ''rank-1'', rankCell = Some 1,
                               cells = [''Alpha (v2)'', ''m1'', ''90.0%'']\<rparr>])"
    by (auto simp: initialPage_def returns_def shown_def adjustedDomain_overall paren_ranks
          plainRow_def paren_samples natToString_small escapeHtml_def escapeChar_def nbsp_def toFixed_90)
  have r: "renderRow h [paren] ''Overall'' ''('' paren = Inl msg"
    using assms by (simp add: renderRow_def paren_term Let_def)
  have thrown: "displayLeaderboard h ''overall'' (Some ''('') ?P
      = Throws msg (setFilterStatus ''('' 1 (?P\<lparr>currentSearchTerm := ''(''\<rparr>)\<lparr>tbody := Some (RowElems [])\<rparr>)"
    using r
    by (simp add: displayLeaderboard_def Let_def initialPage_def adjustedDomain_overall paren_ranks
          tbody_setFilterStatus)
  show ?thesis
    using plain by (simp add: paren_ranks thrown returns_def shown_def)
qed

text \<open>
  The hypothesis of the theorem for C1 holds of the host that rejects every pattern it is
  asked to compile.
\<close>

theorem unterminated_group_shows_no_row_witness:
  "regExp (serving []) ''(()'' = Inl ''Invalid regular expression''
   \<and> validData [paren] ''Overall'' ''('' = [paren]
   \<and> \<not> returns (displayLeaderboard (serving []) ''overall'' (Some ''('')
                  (initialPage\<lparr>leaderboardData := [paren]\<rparr>))
   \<and> shown (displayLeaderboard (serving []) ''overall'' (Some ''('')
                  (initialPage\<lparr>leaderboardData := [paren]\<rparr>))
       = Some (RowElems [])"
proof -
  have r: "regExp (serving []) ''(()'' = Inl ''Invalid regular expression''"
    by (simp add: serving_def answering_def)
  from unterminated_group_shows_no_row[OF r] r show ?thesis by simp
qed

section \<open>Colliding identifiers\<close>

lemma dash_samples:
  "score ''Overall'' dashA = Fin 90" "score ''Overall'' dashB = Fin 90"
  "hasScore ''Overall'' dashA" "hasScore ''Overall'' dashB"
  "uniqueId ''Overall'' dashA = ''A-B-C-90.000''" "uniqueId ''Overall'' dashB = ''A-B-C-90.000''"
  "field dashA ''System'' = Some ''A-B''" "field dashA ''Models'' = Some ''C''"
  "field dashB ''System'' = Some ''A''" "field dashB ''Models'' = Some ''B-C''"
  by (simp_all add: score_def hasScore_def isNaN_def uniqueId_def toStr_def field_def dashA_def dashB_def
        parseFloat_90 toFixed_90)

lemma dash_ranks:
  "allValidData [dashA, dashB] ''Overall'' = [dashA, dashB]"
  "originalRankMap [dashA, dashB] ''Overall'' ''A-B-C-90.000'' = Some 2"
  by (simp_all add: originalRankMap_def allValidData_def sortBy_def byScore_def setRanks_def dash_samples)

text \<open>
  Claim C2 fails on the code. The rows \<open>A-B\<close> / \<open>C\<close> and \<open>A\<close> / \<open>B-C\<close>, both with the score
  \<open>90\<close>, are two distinct entries with one identifier, \<open>A-B-C-90.000\<close>. The rank map keeps
  the rank set last, so the unfiltered render shows the rank 2 for both rows instead of the
  ranks 1 and 2.
\<close>

theorem colliding_identifiers_share_rank:
  "dashA \<noteq> dashB
   \<and> uniqueId ''Overall'' dashA = uniqueId ''Overall'' dashB
   \<and> returns (displayLeaderboard h ''overall'' (Some []) (initialPage\<lparr>leaderboardData := [dashA, dashB]\<rparr>))
   \<and> shown (displayLeaderboard h ''overall'' (Some []) (initialPage\<lparr>leaderboardData := [dashA, dashB]\<rparr>))
       = Some (RowElems [\<lparr>className = Some ''rank-2'', rankCell = Some 2,
                           cells = [''A-B'', ''C'', ''90.0%'']\<rparr>,
                         \<lparr>className = Some ''rank-2'', rankCell = Some 2,
                           cells = [''A'', ''B-C'', ''90.0%'']\<rparr>])"
proof -
  have ne: "dashA \<noteq> dashB" by (simp add: dashA_def dashB_def)
  have "filter (hasScore (adjustedDomain ''overall''))
          (leaderboardData (initialPage\<lparr>leaderboardData := [dashA, dashB]\<rparr>)) \<noteq> []"
    by (simp add: adjustedDomain_overall dash_samples)
  from displayLeaderboard_unfiltered[OF _ this, of "RowElems []" h]
  show ?thesis
    using ne
    by (auto simp: initialPage_def returns_def shown_def adjustedDomain_overall dash_ranks
          plainRow_def dash_samples natToString_small escapeHtml_def escapeChar_def nbsp_def toFixed_90)
qed

text \<open>Where the identifiers of the valid entries are distinct, the ranks shown are 1 to N.\<close>

lemma distinct_identifiers_rank_by_position:
  assumes "tbody s = Some old"
    and "filter (hasScore (adjustedDomain domain)) (leaderboardData s) \<noteq> []"
    and "distinct (map (uniqueId (adjustedDomain domain))
                       (allValidData (leaderboardData s) (adjustedDomain domain)))"
    and "shown (displayLeaderboard h domain (Some []) s) = Some (RowElems rows)"
    and "\<not> columnBeyondText domain"
  shows "map rankCell rows = map Some [1..<Suc (length rows)]"
proof -
  let ?all = "allValidData (leaderboardData s) (adjustedDomain domain)"
  from displayLeaderboard_unfiltered[OF assms(1,2,5), of h] assms(4)
  have rows: "rows = map (plainRow (leaderboardData s) (adjustedDomain domain)) ?all"
    by (auto simp: shown_def)
  have "rankCell (rows ! i) = Some (i + 1)" if "i < length rows" for i
    using that setRanks_distinct[OF assms(3), of i]
    by (simp add: rows plainRow_def originalRankMap_def)
  then show ?thesis
    by (auto intro!: nth_equalityI simp: nth_upt simp del: upt_Suc)
qed

section \<open>Which rows are valid for a column\<close>









lemma team_samples:
  "score ''overall'' teamA = Fin 90" "score ''overall'' teamC = NaN"
  "hasScore ''overall'' teamA" "\<not> hasScore ''overall'' teamC"
  "\<not> hasScore ''biomedical'' teamA" "\<not> hasScore ''biomedical'' teamC"
  by (simp_all add: score_def hasScore_def isNaN_def field_def teamA_def teamC_def
        parseFloat_abc parseFloat_90 parseFloat_undefined)




section \<open>The empty states\<close>

lemma messageRow_inject: "messageRow c a = messageRow c b \<longleftrightarrow> a = b"
  by (simp add: messageRow_def)

lemma displayLeaderboard_no_data:
  assumes "tbody s = Some old" and "leaderboardData s = []"
  shows "returns (displayLeaderboard h domain arg s)
       \<and> shown (displayLeaderboard h domain arg s) = Some (InnerHTML (messageRow ''4'' ''No data available''))"
  using assms by (simp add: displayLeaderboard_def setInnerHTML_def returns_def shown_def)

lemma displayLeaderboard_no_match:
  assumes "tbody s = Some old" and "leaderboardData s \<noteq> []"
    and "validData (leaderboardData s) (adjustedDomain domain) (termOf arg s) = []"
  shows "returns (displayLeaderboard h domain arg s)
       \<and> shown (displayLeaderboard h domain arg s)
           = Some (InnerHTML (messageRow ''4'' ''No matching results found''))"
  using assms
  by (simp add: displayLeaderboard_def setInnerHTML_def returns_def shown_def termOf_def Let_def
        tbody_setFilterStatus)

lemma script_displayLeaderboard_no_data:
  assumes "tbody s = Some old" and "leaderboardData s = []"
  shows "returns (script_displayLeaderboard h domain s)
       \<and> shown (script_displayLeaderboard h domain s) = Some (InnerHTML (messageRow ''6'' ''No data available''))"
  using assms by (simp add: script_displayLeaderboard_def setInnerHTML_def returns_def shown_def)

lemma script_displayLeaderboard_no_domain:
  assumes "tbody s = Some old" and "leaderboardData s \<noteq> []"
    and "filter (hasScore domain) (leaderboardData s) = []"
  shows "returns (script_displayLeaderboard h domain s)
       \<and> shown (script_displayLeaderboard h domain s)
           = Some (InnerHTML (messageRow ''6'' ''No data available for this domain''))"
  using assms
  by (simp add: script_displayLeaderboard_def setInnerHTML_def returns_def shown_def Let_def)

text \<open>
  Claim C5, as amended. Each file has two empty-state messages, distinct from each other.
  The leaderboard with search and oracle mode shows \<open>No data available\<close> for an empty
  dataset, and \<open>No matching results found\<close> whenever the dataset is not empty and no row is
  both valid for the column and matched by the search term; that includes a render without
  a search term in which no row is valid for the column. The single-file leaderboard, which
  has no search, shows \<open>No data available\<close> for an empty dataset and
  \<open>No data available for this domain\<close> when the dataset is not empty and no row is valid
  for the column.
\<close>

theorem empty_state_messages:
  assumes "tbody s = Some old"
  shows "(leaderboardData s = [] \<longrightarrow>
            shown (displayLeaderboard h domain arg s)
              = Some (InnerHTML (messageRow ''4'' ''No data available'')))
       \<and> (leaderboardData s \<noteq> []
            \<and> validData (leaderboardData s) (adjustedDomain domain) (termOf arg s) = [] \<longrightarrow>
            shown (displayLeaderboard h domain arg s)
              = Some (InnerHTML (messageRow ''4'' ''No matching results found'')))
       \<and> (leaderboardData s \<noteq> []
            \<and> filter (hasScore (adjustedDomain domain)) (leaderboardData s) = [] \<longrightarrow>
            shown (displayLeaderboard h domain arg s)
              = Some (InnerHTML (messageRow ''4'' ''No matching results found'')))
       \<and> messageRow ''4'' ''No data available'' \<noteq> messageRow ''4'' ''No matching results found''
       \<and> (leaderboardData s = [] \<longrightarrow>
            shown (script_displayLeaderboard h domain s)
              = Some (InnerHTML (messageRow ''6'' ''No data available'')))
       \<and> (leaderboardData s \<noteq> [] \<and> filter (hasScore domain) (leaderboardData s) = [] \<longrightarrow>
            shown (script_displayLeaderboard h domain s)
              = Some (InnerHTML (messageRow ''6'' ''No data available for this domain'')))
       \<and> messageRow ''6'' ''No data available'' \<noteq> messageRow ''6'' ''No data available for this domain''"
  using displayLeaderboard_no_data[OF assms, of h domain arg]
    displayLeaderboard_no_match[OF assms, of domain arg h]
    validData_none_valid[of "adjustedDomain domain" "leaderboardData s" "termOf arg s"]
    script_displayLeaderboard_no_data[OF assms, of h domain]
    script_displayLeaderboard_no_domain[OF assms, of domain h]
  by (simp add: messageRow_inject)

lemma zzz_samples:
  "searching ''zzz''" "\<not> matchesSearch ''zzz'' alpha" "\<not> matchesSearch ''zzz'' beta"
  by (simp_all add: searching_def trim_def isWhiteSpace_def matchesSearch_def field_samples orEmpty_def
        toLowerCase_samples toLowerCase_def toLowerChar_def isUpper_def)

text \<open>
  The theorem for C5 at an empty dataset, at a search term that matches no row and at a
  column that no row has, for both files.
\<close>

theorem empty_state_messages_witness:
  "shown (displayLeaderboard (serving []) ''overall'' (Some []) initialPage)
     = Some (InnerHTML (messageRow ''4'' ''No data available''))
   \<and> shown (displayLeaderboard (serving []) ''overall'' (Some ''zzz'')
              (initialPage\<lparr>leaderboardData := [alpha, beta]\<rparr>))
     = Some (InnerHTML (messageRow ''4'' ''No matching results found''))
   \<and> shown (displayLeaderboard (serving []) ''biomedical'' (Some [])
              (initialPage\<lparr>leaderboardData := [alpha, beta]\<rparr>))
     = Some (InnerHTML (messageRow ''4'' ''No matching results found''))
   \<and> shown (script_displayLeaderboard (serving []) ''overall'' initialPage)
     = Some (InnerHTML (messageRow ''6'' ''No data available''))
   \<and> shown (script_displayLeaderboard (serving []) ''biomedical''
              (initialPage\<lparr>leaderboardData := [teamA, teamC]\<rparr>))
     = Some (InnerHTML (messageRow ''6'' ''No data available for this domain''))"
  using empty_state_messages[of initialPage "RowElems []" "serving []" "''overall''" "Some []"]
    empty_state_messages[of "initialPage\<lparr>leaderboardData := [alpha, beta]\<rparr>" "RowElems []"
      "serving []" "''overall''" "Some ''zzz''"]
    empty_state_messages[of "initialPage\<lparr>leaderboardData := [alpha, beta]\<rparr>" "RowElems []"
      "serving []" "''biomedical''" "Some []"]
    empty_state_messages[of "initialPage\<lparr>leaderboardData := [teamA, teamC]\<rparr>" "RowElems []"
      "serving []" "''biomedical''"]
  by (simp add: initialPage_def termOf_def adjustedDomain_overall adjustedDomain_biomedical
        validData_def hasScore_samples zzz_samples team_samples)

text \<open>
  Claim C5 as stated fails for the leaderboard with search and oracle mode: a column that
  no row has a value for, rendered without a search term, gives the very message that a
  search term matching no row gives. There is no message of its own for that case.
\<close>

theorem no_domain_message_counterexample:
  "shown (displayLeaderboard (serving []) ''biomedical'' (Some [])
            (initialPage\<lparr>leaderboardData := [alpha, beta]\<rparr>))
     = Some (InnerHTML (messageRow ''4'' ''No matching results found''))
   \<and> shown (displayLeaderboard (serving []) ''overall'' (Some ''zzz'')
            (initialPage\<lparr>leaderboardData := [alpha, beta]\<rparr>))
     = shown (displayLeaderboard (serving []) ''biomedical'' (Some [])
            (initialPage\<lparr>leaderboardData := [alpha, beta]\<rparr>))"
  using displayLeaderboard_no_match[of "initialPage\<lparr>leaderboardData := [alpha, beta]\<rparr>" "RowElems []"
      "''overall''" "Some ''zzz''" "serving []"]
    displayLeaderboard_no_match[of "initialPage\<lparr>leaderboardData := [alpha, beta]\<rparr>" "RowElems []"
      "''biomedical''" "Some []" "serving []"]
  by (simp add: initialPage_def termOf_def adjustedDomain_overall adjustedDomain_biomedical
        validData_def hasScore_samples zzz_samples)

section \<open>The highlight reads the search term as a pattern\<close>

lemma dotted_samples:
  "score ''Overall'' dotted = Fin 90" "hasScore ''Overall'' dotted"
  "uniqueId ''Overall'' dotted = ''Alpha-v1.5-90.000''"
  "field dotted ''System'' = Some ''Alpha''" "field dotted ''Models'' = Some ''v1.5''"
  by (simp_all add: score_def hasScore_def isNaN_def uniqueId_def toStr_def field_def dotted_def
        parseFloat_90 toFixed_90)

lemma dot_samples:
  "searching ''.''" "trim ''.'' = ''.''" "matchesSearch ''.'' dotted"
  "\<not> includesStr ''Alpha'' ''.''"
  by (simp_all add: searching_def trim_def isWhiteSpace_def matchesSearch_def dotted_samples orEmpty_def
        toLowerCase_def toLowerChar_def isUpper_def)

lemma highlighter_dot: "highlighter h ''.'' = Inr (markAll (atoms ''.''))"
  by (simp add: highlighter_def dot_samples escapeHtml_def escapeChar_def nbsp_def
        plainPattern_def syntaxChars_def)

lemma markAll_dot:
  "markAll (atoms ''.'') ''Alpha''
     = ''<mark>A</mark><mark>l</mark><mark>p</mark><mark>h</mark><mark>a</mark>''"
  "markAll (atoms ''.'') ''v1.5''
     = ''<mark>v</mark><mark>1</mark><mark>.</mark><mark>5</mark>''"
  by (simp_all add: atoms_def)

lemma dotted_ranks:
  "validData [dotted] ''Overall'' ''.'' = [dotted]"
  "sortedData [dotted] ''Overall'' ''.'' = [dotted]"
  "originalRankMap [dotted] ''Overall'' ''Alpha-v1.5-90.000'' = Some 1"
  by (simp_all add: validData_def sortedData_def sortBy_def dot_samples dotted_samples
        originalRankMap_def allValidData_def setRanks_def)

text \<open>
  A search term without regular-expression syntax is matched as literal text, after
  escaping: the term \<open><script>\<close> is found in a name and wrapped, and no markup of the term
  itself reaches the cell.
\<close>

lemma script_term_compiles:
  "highlighter h ''<script>'' = Inr (markAll (atoms ''&lt;script&gt;''))"
  by (simp add: highlighter_def trim_def isWhiteSpace_def escapeHtml_def escapeChar_def nbsp_def
        plainPattern_def syntaxChars_def)

lemma script_term_is_literal:
  "markAll (atoms ''&lt;script&gt;'') (escapeHtml (Some ''a<Script>b''))
     = ''a<mark>&lt;Script&gt;</mark>b''"
  by code_simp

text \<open>
  Claim C4 fails on the code. The escaped search term is compiled as a regular expression,
  not matched as literal text. With the search term \<open>.\<close> the row is kept because its model
  label contains a dot; the highlight then wraps every character of both cells, although
  the name \<open>Alpha\<close> contains no dot at all.
\<close>

theorem dot_highlights_every_character:
  "matchesSearch ''.'' dotted
   \<and> \<not> includesStr ''Alpha'' ''.''
   \<and> returns (displayLeaderboard h ''overall'' (Some ''.'') (initialPage\<lparr>leaderboardData := [dotted]\<rparr>))
   \<and> shown (displayLeaderboard h ''overall'' (Some ''.'') (initialPage\<lparr>leaderboardData := [dotted]\<rparr>))
       = Some (RowElems
           [\<lparr>className = Some ''rank-1'', rankCell = Some 1,
             cells = [''<mark>A</mark><mark>l</mark><mark>p</mark><mark>h</mark><mark>a</mark>'',
                      ''<mark>v</mark><mark>1</mark><mark>.</mark><mark>5</mark>'',
                      ''90.0%'']\<rparr>])"
proof -
  have r: "renderRow h [dotted] ''Overall'' ''.'' dotted
     = Inr \<lparr>className = Some ''rank-1'', rankCell = Some 1,
             cells = [''<mark>A</mark><mark>l</mark><mark>p</mark><mark>h</mark><mark>a</mark>'',
                      ''<mark>v</mark><mark>1</mark><mark>.</mark><mark>5</mark>'',
                      ''90.0%'']\<rparr>"
    by (simp add: renderRow_def dotted_samples dotted_ranks dot_samples highlighter_dot
          toFixed_90 natToString_small escapeHtml_def escapeChar_def nbsp_def markAll_dot
          del: markAll.simps)
  show ?thesis
    using displayLeaderboard_returns[of "initialPage\<lparr>leaderboardData := [dotted]\<rparr>" "RowElems []"
      "''overall''" "''.''" h
      "\<lambda>e. \<lparr>className = Some ''rank-1'', rankCell = Some 1,
             cells = [''<mark>A</mark><mark>l</mark><mark>p</mark><mark>h</mark><mark>a</mark>'',
                      ''<mark>v</mark><mark>1</mark><mark>.</mark><mark>5</mark>'',
                      ''90.0%'']\<rparr>"] r
    by (simp add: initialPage_def adjustedDomain_overall dotted_ranks dot_samples)
qed

section \<open>The oracle toggle\<close>

lemma title_None_update: "title s = None \<Longrightarrow> s\<lparr>title := None\<rparr> = s"
  by (cases s) simp

text \<open>
  Activating the toggle is a load, from the state in which the checkbox and the flag have
  the new value and the heading, if the page has one, names the new mode.
\<close>

lemma toggleHandler_is_load:
  "toggleHandler h s =
     loadLeaderboard h
       (s\<lparr>toggleChecked := \<not> toggleChecked s, isOracleMode := \<not> toggleChecked s,
          title := (case title s of
                      None \<Rightarrow> None
                    | Some old \<Rightarrow> Some (if toggleChecked s then ''Current Rankings''
                                          else ''Current Rankings (Oracle Inputs)''))\<rparr>)"
proof (cases "title s")
  case None
  then have "title (s\<lparr>toggleChecked := \<not> toggleChecked s, isOracleMode := \<not> toggleChecked s\<rparr>) = None"
    by simp
  note eq = title_None_update[OF this]
  show ?thesis
    using None by (simp add: toggleHandler_def setTitle_def Let_def eq)
next
  case (Some old)
  then show ?thesis by (simp add: toggleHandler_def setTitle_def modeTitle_def Let_def)
qed

lemma changeListener_is_load:
  "changeListener h s =
     loadLeaderboard h
       (s\<lparr>isOracleMode := toggleChecked s,
          title := (case title s of
                      None \<Rightarrow> None
                    | Some old \<Rightarrow> Some (if toggleChecked s then ''Current Rankings (Oracle Inputs)''
                                          else ''Current Rankings''))\<rparr>)"
proof (cases "title s")
  case None
  then have "title (s\<lparr>isOracleMode := toggleChecked s\<rparr>) = None"
    by simp
  note eq = title_None_update[OF this]
  show ?thesis
    using None by (simp add: changeListener_def setTitle_def eq)
next
  case (Some old)
  then show ?thesis by (simp add: changeListener_def setTitle_def modeTitle_def)
qed

lemma load_requests_file:
  "requests (loadLeaderboard h s)
     = requests s @ [if isOracleMode s then ''data/benchmark_oracle.csv'' else ''data/benchmark_results.csv'']"
  using load_requests[of h s] by (simp add: csvFile_def)

lemma load_stores_file:
  assumes "fetch h (if isOracleMode s then ''data/benchmark_oracle.csv'' else ''data/benchmark_results.csv'')
             = Response True st (Inr csvText)"
    and "papaParse h csvText = Inr parsed"
  shows "leaderboardData (loadLeaderboard h s) =
           filter (\<lambda>d. present (field d ''System'') \<and> present (field d ''Models'')) parsed"
  using load_stores[of h s st csvText parsed] assms by (simp add: csvFile_def)

lemma toggle_flips:
  "isOracleMode (toggleHandler h s) = (\<not> toggleChecked s)"
  "toggleChecked (toggleHandler h s) = (\<not> toggleChecked s)"
  "requests (toggleHandler h s)
     = requests s @ [if toggleChecked s then ''data/benchmark_results.csv'' else ''data/benchmark_oracle.csv'']"
  "title (toggleHandler h s)
     = (case title s of
          None \<Rightarrow> None
        | Some old \<Rightarrow> Some (if toggleChecked s then ''Current Rankings''
                              else ''Current Rankings (Oracle Inputs)''))"
  by (simp_all add: toggleHandler_is_load load_requests csvFile_def)

lemma toggle_stores:
  assumes "fetch h (if toggleChecked s then ''data/benchmark_results.csv'' else ''data/benchmark_oracle.csv'')
             = Response True st (Inr csvText)"
    and "papaParse h csvText = Inr parsed"
  shows "leaderboardData (toggleHandler h s) =
           filter (\<lambda>d. present (field d ''System'') \<and> present (field d ''Models'')) parsed"
  unfolding toggleHandler_is_load
  by (rule load_stores_file[where st = st and csvText = csvText]) (use assms in auto)

lemma change_flips:
  "isOracleMode (changeListener h s) = toggleChecked s"
  "toggleChecked (changeListener h s) = toggleChecked s"
  "requests (changeListener h s)
     = requests s @ [if toggleChecked s then ''data/benchmark_oracle.csv'' else ''data/benchmark_results.csv'']"
  "title (changeListener h s)
     = (case title s of
          None \<Rightarrow> None
        | Some old \<Rightarrow> Some (if toggleChecked s then ''Current Rankings (Oracle Inputs)''
                              else ''Current Rankings''))"
  by (simp_all add: changeListener_is_load load_requests csvFile_def)

lemma change_stores:
  assumes "fetch h (if toggleChecked s then ''data/benchmark_oracle.csv'' else ''data/benchmark_results.csv'')
             = Response True st (Inr csvText)"
    and "papaParse h csvText = Inr parsed"
  shows "leaderboardData (changeListener h s) =
           filter (\<lambda>d. present (field d ''System'') \<and> present (field d ''Models'')) parsed"
  unfolding changeListener_is_load
  by (rule load_stores_file[where st = st and csvText = csvText]) (use assms in auto)

lemma present_samples:
  "present (field alpha ''System'')" "present (field alpha ''Models'')"
  "present (field beta ''System'')" "present (field beta ''Models'')"
  by (simp_all add: field_samples present_def trim_def isWhiteSpace_def)

text \<open>A load whose request and parse succeed stores the rows and renders them.\<close>

lemma load_success:
  assumes "fetch h (if isOracleMode s then ''data/benchmark_oracle.csv'' else ''data/benchmark_results.csv'')
             = Response True st (Inr csvText)"
    and "papaParse h csvText = Inr parsed"
  shows "loadLeaderboard h s =
           (case displayLeaderboard h (currentDomain s) None
                   (s\<lparr>requests := requests s @ [if isOracleMode s then ''data/benchmark_oracle.csv''
                                                  else ''data/benchmark_results.csv''],
                      leaderboardData := filter (\<lambda>d. present (field d ''System'')
                                                      \<and> present (field d ''Models'')) parsed\<rparr>) of
              Returns s2 \<Rightarrow> s2
            | Throws msg s2 \<Rightarrow> showLoadError ''4'' msg s2)"
  using assms by (simp add: loadLeaderboard_def csvFile_def Let_def)

lemma displayLeaderboard_default:
  assumes "tbody s = Some old" and "currentSearchTerm s = []"
    and "filter (hasScore (adjustedDomain domain)) (leaderboardData s) \<noteq> []"
    and "\<not> columnBeyondText domain"
  shows "\<exists>s'. displayLeaderboard h domain None s = Returns s'
            \<and> tbody s' = Some (RowElems (map (plainRow (leaderboardData s) (adjustedDomain domain))
                             (allValidData (leaderboardData s) (adjustedDomain domain))))
            \<and> currentSearchTerm s' = []"
proof -
  have ne: "leaderboardData s \<noteq> []" using assms(3) by auto
  have ap: "appendRows (renderRow h (leaderboardData s) (adjustedDomain domain) [])
              (allValidData (leaderboardData s) (adjustedDomain domain)) []
            = Inr ([] @ map (plainRow (leaderboardData s) (adjustedDomain domain))
                 (allValidData (leaderboardData s) (adjustedDomain domain)))"
    by (rule appendRows_total) (rule renderRow_unfiltered)
  have cs: "currentSearchTerm (setFilterStatus t n x) = currentSearchTerm x" for t n x
    by (simp add: setFilterStatus_def split: option.splits prod.splits)
  show ?thesis
    using assms ne ap
    by (simp add: displayLeaderboard_def Let_def validData_unfiltered sortedData_unfiltered
          tbody_setFilterStatus addTopPerformersStyling_def cs)
qed

lemma single_samples:
  "allValidData [alpha] ''Overall'' = [alpha]" "allValidData [beta] ''Overall'' = [beta]"
  "originalRankMap [alpha] ''Overall'' ''Alpha-m1-90.000'' = Some 1"
  "originalRankMap [beta] ''Overall'' ''Beta-m2-80.000'' = Some 1"
  by (simp_all add: originalRankMap_def allValidData_def sortBy_def hasScore_samples setRanks_def
        uniqueId_samples)

lemma plainRow_samples:
  "plainRow [alpha] ''Overall'' alpha
     = \<lparr>className = Some ''rank-1'', rankCell = Some 1, cells = [''Alpha'', ''m1'', ''90.0%'']\<rparr>"
  "plainRow [beta] ''Overall'' beta
     = \<lparr>className = Some ''rank-1'', rankCell = Some 1, cells = [''Beta'', ''m2'', ''80.0%'']\<rparr>"
  by (simp_all add: plainRow_def single_samples uniqueId_samples natToString_small field_samples
        escapeHtml_samples score_samples toFixed_90 toFixed_80)

text \<open>
  A load on the host with the two files, from a page with the table body and no search
  term: what it leaves in the state.
\<close>

lemma load_twoFiles:
  assumes "tbody s = Some old" and "currentSearchTerm s = []" and "currentDomain s = ''overall''"
  shows "isOracleMode s \<Longrightarrow>
           tbody (loadLeaderboard (twoFiles [beta] [alpha]) s)
             = Some (RowElems [\<lparr>className = Some ''rank-1'', rankCell = Some 1,
                                 cells = [''Alpha'', ''m1'', ''90.0%'']\<rparr>])
         \<and> currentSearchTerm (loadLeaderboard (twoFiles [beta] [alpha]) s) = []"
    and "\<not> isOracleMode s \<Longrightarrow>
           tbody (loadLeaderboard (twoFiles [beta] [alpha]) s)
             = Some (RowElems [\<lparr>className = Some ''rank-1'', rankCell = Some 1,
                                 cells = [''Beta'', ''m2'', ''80.0%'']\<rparr>])
         \<and> currentSearchTerm (loadLeaderboard (twoFiles [beta] [alpha]) s) = []"
proof -
  let ?H = "twoFiles [beta] [alpha]"
  {
    assume o: "isOracleMode s"
    let ?d = "s\<lparr>requests := requests s @ [''data/benchmark_oracle.csv''], leaderboardData := [alpha]\<rparr>"
    have l: "loadLeaderboard ?H s =
        (case displayLeaderboard ?H ''overall'' None ?d of
           Returns s2 \<Rightarrow> s2 | Throws msg s2 \<Rightarrow> showLoadError ''4'' msg s2)"
      using load_success[of ?H s 200 "''oracle''" "[alpha]"] o assms(3)
      by (simp add: twoFiles_simps present_samples)
    have "filter (hasScore (adjustedDomain ''overall'')) (leaderboardData ?d) \<noteq> []"
      by (simp add: adjustedDomain_overall hasScore_samples)
    from displayLeaderboard_default[OF _ _ this, of old ?H] assms(1,2)
    show "tbody (loadLeaderboard ?H s)
             = Some (RowElems [\<lparr>className = Some ''rank-1'', rankCell = Some 1,
                                 cells = [''Alpha'', ''m1'', ''90.0%'']\<rparr>])
         \<and> currentSearchTerm (loadLeaderboard ?H s) = []"
      by (auto simp: l adjustedDomain_overall single_samples plainRow_samples)
  }
  {
    assume o: "\<not> isOracleMode s"
    let ?d = "s\<lparr>requests := requests s @ [''data/benchmark_results.csv''], leaderboardData := [beta]\<rparr>"
    have l: "loadLeaderboard ?H s =
        (case displayLeaderboard ?H ''overall'' None ?d of
           Returns s2 \<Rightarrow> s2 | Throws msg s2 \<Rightarrow> showLoadError ''4'' msg s2)"
      using load_success[of ?H s 200 "''results''" "[beta]"] o assms(3)
      by (simp add: twoFiles_simps present_samples)
    have "filter (hasScore (adjustedDomain ''overall'')) (leaderboardData ?d) \<noteq> []"
      by (simp add: adjustedDomain_overall hasScore_samples)
    from displayLeaderboard_default[OF _ _ this, of old ?H] assms(1,2)
    show "tbody (loadLeaderboard ?H s)
             = Some (RowElems [\<lparr>className = Some ''rank-1'', rankCell = Some 1,
                                 cells = [''Beta'', ''m2'', ''80.0%'']\<rparr>])
         \<and> currentSearchTerm (loadLeaderboard ?H s) = []"
      by (auto simp: l adjustedDomain_overall single_samples plainRow_samples)
  }
qed

lemma load_domain: "currentDomain (loadLeaderboard h s) = currentDomain s"
proof -
  let ?s0 = "s\<lparr>requests := requests s @ [csvFile (isOracleMode s)]\<rparr>"
  have a: "frame ?s0 (showLoadError ''4'' m ?s0)" for m by (rule showLoadError_frame)
  have b: "frame (?s0\<lparr>leaderboardData := d\<rparr>)
     (case displayLeaderboard h (currentDomain s) None (?s0\<lparr>leaderboardData := d\<rparr>) of Returns s2 \<Rightarrow> s2 | Throws msg s2 \<Rightarrow> showLoadError ''4'' msg s2)" for d
    by (rule after_display_frame)
  show ?thesis
    using a b
    by (auto simp: loadLeaderboard_def frame_def Let_def split: fetched.splits sum.splits)
qed

text \<open>
  Claim C9. A load requests one resource, \<open>data/benchmark_oracle.csv\<close> when the flag is set and
  \<open>data/benchmark_results.csv\<close> otherwise; when the request and the parse succeed, it stores
  the rows parsed from the answer and renders them. Activating the toggle runs the whole
  load, from the state with the checkbox and the flag flipped and with the heading
  \<open>Current Rankings (Oracle Inputs)\<close> when the new mode is the oracle mode and
  \<open>Current Rankings\<close> when it is not; so does the \<open>change\<close> listener, from the state with the
  flag set to the checkbox. With the flag in step with the checkbox, as \<open>handleOracleToggle\<close>
  leaves it, activating the toggle flips the flag, requests the other resource, not the one
  of the mode before, stores the rows parsed from it, leaves flag and checkbox in step
  again, and shows the heading of the new mode. The same holds of the \<open>change\<close> listener
  after the browser has flipped the checkbox.
\<close>

theorem toggle_reloads_other_file:
  "requests (loadLeaderboard h s)
     = requests s @ [if isOracleMode s then ''data/benchmark_oracle.csv'' else ''data/benchmark_results.csv'']
   \<and> (fetch h (if isOracleMode s then ''data/benchmark_oracle.csv'' else ''data/benchmark_results.csv'')
          = Response True st (Inr csvText) \<and> papaParse h csvText = Inr parsed
        \<longrightarrow> leaderboardData (loadLeaderboard h s)
              = filter (\<lambda>d. present (field d ''System'') \<and> present (field d ''Models'')) parsed
          \<and> loadLeaderboard h s =
              (case displayLeaderboard h (currentDomain s) None
                      (s\<lparr>requests := requests s @ [if isOracleMode s then ''data/benchmark_oracle.csv''
                                                     else ''data/benchmark_results.csv''],
                         leaderboardData := filter (\<lambda>d. present (field d ''System'')
                                                         \<and> present (field d ''Models'')) parsed\<rparr>) of
                 Returns s2 \<Rightarrow> s2
               | Throws msg s2 \<Rightarrow> showLoadError ''4'' msg s2))
   \<and> toggleHandler h s =
        loadLeaderboard h
          (s\<lparr>toggleChecked := \<not> toggleChecked s, isOracleMode := \<not> toggleChecked s,
             title := (case title s of
                         None \<Rightarrow> None
                       | Some old \<Rightarrow> Some (if toggleChecked s then ''Current Rankings''
                                             else ''Current Rankings (Oracle Inputs)''))\<rparr>)
   \<and> changeListener h s =
        loadLeaderboard h
          (s\<lparr>isOracleMode := toggleChecked s,
             title := (case title s of
                         None \<Rightarrow> None
                       | Some old \<Rightarrow> Some (if toggleChecked s then ''Current Rankings (Oracle Inputs)''
                                             else ''Current Rankings''))\<rparr>)
   \<and> (isOracleMode s = toggleChecked s \<longrightarrow>
         isOracleMode (toggleHandler h s) = (\<not> isOracleMode s)
       \<and> toggleChecked (toggleHandler h s) = isOracleMode (toggleHandler h s)
       \<and> requests (toggleHandler h s)
           = requests s @ [if isOracleMode s then ''data/benchmark_results.csv''
                           else ''data/benchmark_oracle.csv'']
       \<and> (fetch h (if isOracleMode s then ''data/benchmark_results.csv'' else ''data/benchmark_oracle.csv'')
              = Response True st' (Inr csvText') \<and> papaParse h csvText' = Inr parsed'
            \<longrightarrow> leaderboardData (toggleHandler h s)
                  = filter (\<lambda>d. present (field d ''System'') \<and> present (field d ''Models'')) parsed')
       \<and> (title s \<noteq> None \<longrightarrow>
            title (toggleHandler h s)
              = Some (if isOracleMode s then ''Current Rankings'' else ''Current Rankings (Oracle Inputs)'')))
   \<and> (isOracleMode s \<noteq> toggleChecked s \<longrightarrow>
         isOracleMode (changeListener h s) = (\<not> isOracleMode s)
       \<and> toggleChecked (changeListener h s) = isOracleMode (changeListener h s)
       \<and> requests (changeListener h s)
           = requests s @ [if isOracleMode s then ''data/benchmark_results.csv''
                           else ''data/benchmark_oracle.csv'']
       \<and> (fetch h (if isOracleMode s then ''data/benchmark_results.csv'' else ''data/benchmark_oracle.csv'')
              = Response True st' (Inr csvText') \<and> papaParse h csvText' = Inr parsed'
            \<longrightarrow> leaderboardData (changeListener h s)
                  = filter (\<lambda>d. present (field d ''System'') \<and> present (field d ''Models'')) parsed')
       \<and> (title s \<noteq> None \<longrightarrow>
            title (changeListener h s)
              = Some (if isOracleMode s then ''Current Rankings'' else ''Current Rankings (Oracle Inputs)'')))
   \<and> isOracleMode (handleOracleToggle s) = toggleChecked s
   \<and> toggleChecked (handleOracleToggle s) = toggleChecked s"
proof -
  have a: "fetch h (if isOracleMode s then ''data/benchmark_oracle.csv'' else ''data/benchmark_results.csv'')
          = Response True st (Inr csvText) \<and> papaParse h csvText = Inr parsed
        \<longrightarrow> leaderboardData (loadLeaderboard h s)
              = filter (\<lambda>d. present (field d ''System'') \<and> present (field d ''Models'')) parsed
          \<and> loadLeaderboard h s =
              (case displayLeaderboard h (currentDomain s) None
                      (s\<lparr>requests := requests s @ [if isOracleMode s then ''data/benchmark_oracle.csv''
                                                     else ''data/benchmark_results.csv''],
                         leaderboardData := filter (\<lambda>d. present (field d ''System'')
                                                         \<and> present (field d ''Models'')) parsed\<rparr>) of
                 Returns s2 \<Rightarrow> s2
               | Throws msg s2 \<Rightarrow> showLoadError ''4'' msg s2)"
    using load_stores_file[of h s st csvText parsed] load_success[of h s st csvText parsed] by blast
  have b: "isOracleMode s = toggleChecked s \<Longrightarrow>
        fetch h (if isOracleMode s then ''data/benchmark_results.csv'' else ''data/benchmark_oracle.csv'')
              = Response True st' (Inr csvText') \<and> papaParse h csvText' = Inr parsed'
            \<longrightarrow> leaderboardData (toggleHandler h s)
                  = filter (\<lambda>d. present (field d ''System'') \<and> present (field d ''Models'')) parsed'"
    using toggle_stores[of h s st' csvText' parsed'] by auto
  have c: "isOracleMode s \<noteq> toggleChecked s \<Longrightarrow>
        fetch h (if isOracleMode s then ''data/benchmark_results.csv'' else ''data/benchmark_oracle.csv'')
              = Response True st' (Inr csvText') \<and> papaParse h csvText' = Inr parsed'
            \<longrightarrow> leaderboardData (changeListener h s)
                  = filter (\<lambda>d. present (field d ''System'') \<and> present (field d ''Models'')) parsed'"
    using change_stores[of h s st' csvText' parsed'] by auto
  have d: "isOracleMode s = toggleChecked s \<Longrightarrow> title s \<noteq> None \<Longrightarrow>
            title (toggleHandler h s)
              = Some (if isOracleMode s then ''Current Rankings'' else ''Current Rankings (Oracle Inputs)'')"
    by (auto simp: toggle_flips)
  have e: "isOracleMode s \<noteq> toggleChecked s \<Longrightarrow> title s \<noteq> None \<Longrightarrow>
            title (changeListener h s)
              = Some (if isOracleMode s then ''Current Rankings'' else ''Current Rankings (Oracle Inputs)'')"
    by (auto simp: change_flips)
  have f: "isOracleMode s = toggleChecked s \<Longrightarrow>
         isOracleMode (toggleHandler h s) = (\<not> isOracleMode s)
       \<and> toggleChecked (toggleHandler h s) = isOracleMode (toggleHandler h s)
       \<and> requests (toggleHandler h s)
           = requests s @ [if isOracleMode s then ''data/benchmark_results.csv''
                           else ''data/benchmark_oracle.csv'']"
    by (simp add: toggle_flips)
  have g: "isOracleMode s \<noteq> toggleChecked s \<Longrightarrow>
         isOracleMode (changeListener h s) = (\<not> isOracleMode s)
       \<and> toggleChecked (changeListener h s) = isOracleMode (changeListener h s)
       \<and> requests (changeListener h s)
           = requests s @ [if isOracleMode s then ''data/benchmark_results.csv''
                           else ''data/benchmark_oracle.csv'']"
    by (auto simp: change_flips)
  have i: "isOracleMode (handleOracleToggle s) = toggleChecked s
         \<and> toggleChecked (handleOracleToggle s) = toggleChecked s"
    by (simp add: handleOracleToggle_def)
  show ?thesis
    using load_requests_file[of h s] a toggleHandler_is_load[of h s] changeListener_is_load[of h s]
      b c d e f g i
    by blast
qed

text \<open>
  The theorem for C9 at the initial page after \<open>handleOracleToggle\<close>, on a host whose oracle
  file holds the row \<open>Alpha\<close> and whose results file holds the row \<open>Beta\<close>. The first
  activation of the toggle requests the oracle file, stores and shows \<open>Alpha\<close> under the
  oracle heading; the second requests the results file, stores and shows \<open>Beta\<close> under the
  plain heading. A \<open>change\<close> event after the browser has checked the box does what the
  first activation does.
\<close>

theorem toggle_reloads_other_file_witness:
  "isOracleMode (handleOracleToggle initialPage) = toggleChecked (handleOracleToggle initialPage)
   \<and> title (handleOracleToggle initialPage) = Some ''Current Rankings''
   \<and> requests (toggleHandler (twoFiles [beta] [alpha]) (handleOracleToggle initialPage))
       = [''data/benchmark_oracle.csv'']
   \<and> isOracleMode (toggleHandler (twoFiles [beta] [alpha]) (handleOracleToggle initialPage))
   \<and> leaderboardData (toggleHandler (twoFiles [beta] [alpha]) (handleOracleToggle initialPage)) = [alpha]
   \<and> tbody (toggleHandler (twoFiles [beta] [alpha]) (handleOracleToggle initialPage))
       = Some (RowElems [\<lparr>className = Some ''rank-1'', rankCell = Some 1,
                           cells = [''Alpha'', ''m1'', ''90.0%'']\<rparr>])
   \<and> title (toggleHandler (twoFiles [beta] [alpha]) (handleOracleToggle initialPage))
       = Some ''Current Rankings (Oracle Inputs)''
   \<and> requests (toggleHandler (twoFiles [beta] [alpha])
                 (toggleHandler (twoFiles [beta] [alpha]) (handleOracleToggle initialPage)))
       = [''data/benchmark_oracle.csv'', ''data/benchmark_results.csv'']
   \<and> \<not> isOracleMode (toggleHandler (twoFiles [beta] [alpha])
                 (toggleHandler (twoFiles [beta] [alpha]) (handleOracleToggle initialPage)))
   \<and> leaderboardData (toggleHandler (twoFiles [beta] [alpha])
                 (toggleHandler (twoFiles [beta] [alpha]) (handleOracleToggle initialPage))) = [beta]
   \<and> tbody (toggleHandler (twoFiles [beta] [alpha])
                 (toggleHandler (twoFiles [beta] [alpha]) (handleOracleToggle initialPage)))
       = Some (RowElems [\<lparr>className = Some ''rank-1'', rankCell = Some 1,
                           cells = [''Beta'', ''m2'', ''80.0%'']\<rparr>])
   \<and> title (toggleHandler (twoFiles [beta] [alpha])
                 (toggleHandler (twoFiles [beta] [alpha]) (handleOracleToggle initialPage)))
       = Some ''Current Rankings''
   \<and> requests (changeListener (twoFiles [beta] [alpha]) (initialPage\<lparr>toggleChecked := True\<rparr>))
       = [''data/benchmark_oracle.csv'']
   \<and> leaderboardData (changeListener (twoFiles [beta] [alpha]) (initialPage\<lparr>toggleChecked := True\<rparr>))
       = [alpha]
   \<and> tbody (changeListener (twoFiles [beta] [alpha]) (initialPage\<lparr>toggleChecked := True\<rparr>))
       = Some (RowElems [\<lparr>className = Some ''rank-1'', rankCell = Some 1,
                           cells = [''Alpha'', ''m1'', ''90.0%'']\<rparr>])
   \<and> title (changeListener (twoFiles [beta] [alpha]) (initialPage\<lparr>toggleChecked := True\<rparr>))
       = Some ''Current Rankings (Oracle Inputs)''"
proof -
  let ?H = "twoFiles [beta] [alpha]"
  let ?s0 = "handleOracleToggle initialPage"
  let ?s1 = "toggleHandler ?H ?s0"
  let ?s2 = "toggleHandler ?H ?s1"
  let ?c0 = "initialPage\<lparr>toggleChecked := True\<rparr>"
  have s0: "isOracleMode ?s0 = toggleChecked ?s0" "title ?s0 = Some ''Current Rankings''"
    "\<not> isOracleMode ?s0" "requests ?s0 = []" "tbody ?s0 = Some (RowElems [])"
    "currentSearchTerm ?s0 = []" "currentDomain ?s0 = ''overall''" "\<not> toggleChecked ?s0"
    by (simp_all add: handleOracleToggle_def initialPage_def)
  note t0 = toggle_reloads_other_file[of ?H ?s0 200 "''results''" "[beta]" 200 "''oracle''" "[alpha]"]
  note e0 = t0[THEN conjunct2, THEN conjunct2, THEN conjunct1]
  note a = t0[THEN conjunct2, THEN conjunct2, THEN conjunct2, THEN conjunct2, THEN conjunct1,
      rule_format, OF s0(1)]
  have s1: "requests ?s1 = [''data/benchmark_oracle.csv'']" "isOracleMode ?s1"
    "toggleChecked ?s1 = isOracleMode ?s1"
    "leaderboardData ?s1 = [alpha]" "title ?s1 = Some ''Current Rankings (Oracle Inputs)''"
    using a s0 by (simp_all add: twoFiles_simps present_samples)
  have r1: "tbody ?s1 = Some (RowElems [\<lparr>className = Some ''rank-1'', rankCell = Some 1,
                           cells = [''Alpha'', ''m1'', ''90.0%'']\<rparr>])
          \<and> currentSearchTerm ?s1 = []"
    unfolding e0 by (rule load_twoFiles(1)[where old = "RowElems []"]) (simp_all add: s0)
  have d1: "currentDomain ?s1 = ''overall''"
    unfolding e0 by (simp add: load_domain s0)
  note t1 = toggle_reloads_other_file[of ?H ?s1 200 "''oracle''" "[alpha]" 200 "''results''" "[beta]"]
  note e1 = t1[THEN conjunct2, THEN conjunct2, THEN conjunct1]
  note b = t1[THEN conjunct2, THEN conjunct2, THEN conjunct2, THEN conjunct2, THEN conjunct1,
      rule_format, OF s1(3)[symmetric]]
  have s2: "requests ?s2 = [''data/benchmark_oracle.csv'', ''data/benchmark_results.csv'']"
    "\<not> isOracleMode ?s2"
    "leaderboardData ?s2 = [beta]"
    "title ?s2 = Some ''Current Rankings''"
    using b s1 by (simp_all add: twoFiles_simps present_samples)
  have r2: "tbody ?s2 = Some (RowElems [\<lparr>className = Some ''rank-1'', rankCell = Some 1,
                           cells = [''Beta'', ''m2'', ''80.0%'']\<rparr>])
          \<and> currentSearchTerm ?s2 = []"
    unfolding e1
    by (rule load_twoFiles(2)[where old = "RowElems [\<lparr>className = Some ''rank-1'', rankCell = Some 1,
                           cells = [''Alpha'', ''m1'', ''90.0%'']\<rparr>]"])
       (simp_all add: s1 r1 d1)
  have c0: "isOracleMode ?c0 \<noteq> toggleChecked ?c0" "title ?c0 = Some ''Current Rankings''"
    "\<not> isOracleMode ?c0" "requests ?c0 = []" "tbody ?c0 = Some (RowElems [])"
    "currentSearchTerm ?c0 = []" "currentDomain ?c0 = ''overall''" "toggleChecked ?c0"
    by (simp_all add: initialPage_def)
  note tc = toggle_reloads_other_file[of ?H ?c0 200 "''results''" "[beta]" 200 "''oracle''" "[alpha]"]
  note ec = tc[THEN conjunct2, THEN conjunct2, THEN conjunct2, THEN conjunct1]
  note c = tc[THEN conjunct2, THEN conjunct2, THEN conjunct2, THEN conjunct2, THEN conjunct2,
      THEN conjunct1, rule_format, OF c0(1)]
  have c1: "requests (changeListener ?H ?c0) = [''data/benchmark_oracle.csv'']"
    "leaderboardData (changeListener ?H ?c0) = [alpha]"
    "title (changeListener ?H ?c0) = Some ''Current Rankings (Oracle Inputs)''"
    using c c0 by (simp_all add: twoFiles_simps present_samples)
  have rc: "tbody (changeListener ?H ?c0) = Some (RowElems [\<lparr>className = Some ''rank-1'', rankCell = Some 1,
                           cells = [''Alpha'', ''m1'', ''90.0%'']\<rparr>])
          \<and> currentSearchTerm (changeListener ?H ?c0) = []"
    unfolding ec by (rule load_twoFiles(1)[where old = "RowElems []"]) (simp_all add: initialPage_def)
  show ?thesis
    using s0(1,2) s1(1,2,4,5) r1 s2 r2 c1 rc by simp
qed

end
